theory Spec2Isabelle
  imports Main "HOL-Library.Sublist"
begin

section \<open>JavaScript values and their text\<close>

subsection \<open>Numbers\<close>

text \<open>
  A number that JSON can give is zero, an infinity (\<open>JSON.parse\<close> of a literal beyond the
  largest double) or a finite number \<open>\<plusminus> 0.d\<^sub>1\<dots>d\<^sub>k \<times> 10\<^sup>n\<close>, held as its sign, the digits
  \<open>s = d\<^sub>1\<dots>d\<^sub>k\<close> and the exponent \<open>n\<close>. The digits are the ones \<open>Number::toString\<close> of
  ECMAScript works with: the shortest that denote the double. So 7 is \<open>js_finite False 7 1\<close>,
  7.5 is \<open>js_finite False 75 1\<close> and \<open>1e21\<close> is \<open>js_finite False 1 22\<close>.
\<close>

datatype js_number =
    js_zero
  | js_infinity bool
  | js_finite bool nat int

definition digit_char :: "nat \<Rightarrow> char" where
  "digit_char d =
     (if d = 0 then CHR ''0'' else if d = 1 then CHR ''1'' else if d = 2 then CHR ''2''
      else if d = 3 then CHR ''3'' else if d = 4 then CHR ''4'' else if d = 5 then CHR ''5''
      else if d = 6 then CHR ''6'' else if d = 7 then CHR ''7'' else if d = 8 then CHR ''8''
      else CHR ''9'')"

fun decimal :: "nat \<Rightarrow> string" where
  "decimal n = (if n < 10 then [digit_char n] else decimal (n div 10) @ [digit_char (n mod 10)])"

declare decimal.simps [simp del]

text \<open>Trailing zero digits add nothing to \<open>0.d\<^sub>1\<dots>d\<^sub>k\<close>: the shortest digits have none.\<close>

fun strip_zeros :: "nat \<Rightarrow> nat" where
  "strip_zeros s = (if s = 0 then 0 else if s mod 10 = 0 then strip_zeros (s div 10) else s)"

declare strip_zeros.simps [simp del]

definition zeros :: "nat \<Rightarrow> string" where
  "zeros m = replicate m (CHR ''0'')"

text \<open>
  \<open>Number::toString\<close> on a positive number with digits \<open>s\<close> (\<open>k\<close> of them) and exponent \<open>n\<close>:
  the digits and \<open>n - k\<close> zeros when \<open>k \<le> n \<le> 21\<close>; a decimal point after \<open>n\<close> digits when
  \<open>0 < n \<le> 21\<close>; \<open>0.\<close>, \<open>-n\<close> zeros and the digits when \<open>-6 < n \<le> 0\<close>; the exponent
  notation otherwise.
\<close>

definition positive_text :: "nat \<Rightarrow> int \<Rightarrow> string" where
  "positive_text s n =
     (let digits = decimal s; k = int (length digits)
      in if k \<le> n \<and> n \<le> 21 then digits @ zeros (nat (n - k))
         else if 0 < n \<and> n \<le> 21 then take (nat n) digits @ ''.'' @ drop (nat n) digits
         else if - 6 < n \<and> n \<le> 0 then ''0.'' @ zeros (nat (- n)) @ digits
         else let e = n - 1;
                  exponent = (if e < 0 then ''-'' else ''+'') @ decimal (nat \<bar>e\<bar>)
              in if k = 1 then digits @ ''e'' @ exponent
                 else take 1 digits @ ''.'' @ drop 1 digits @ ''e'' @ exponent)"

fun Number_toString :: "js_number \<Rightarrow> string" where
  "Number_toString js_zero = ''0''"
| "Number_toString (js_infinity negative) = (if negative then ''-Infinity'' else ''Infinity'')"
| "Number_toString (js_finite negative s n) =
     (if strip_zeros s = 0 then ''0''
      else (if negative then ''-'' else []) @ positive_text (strip_zeros s) n)"

fun is_zero :: "js_number \<Rightarrow> bool" where
  "is_zero js_zero = True"
| "is_zero (js_infinity negative) = False"
| "is_zero (js_finite negative s n) = (s = 0)"

text \<open>
  An integer as a number: its decimal digits, and as many of them before the point. (An
  integer of more than 53 bits need not be a double; no such level or status code reaches
  the code.)
\<close>

definition js_integer :: "int \<Rightarrow> js_number" where
  "js_integer i =
     (if i = 0 then js_zero
      else js_finite (i < 0) (nat \<bar>i\<bar>) (int (length (decimal (nat \<bar>i\<bar>)))))"

definition number_string :: "int \<Rightarrow> string" where
  "number_string i = Number_toString (js_integer i)"

subsection \<open>JSON values\<close>

datatype json =
    JNull
  | JBool bool
  | JNum js_number
  | JStr string
  | JArr "json list"
  | JObj "(string \<times> json) list"

fun join :: "string \<Rightarrow> string list \<Rightarrow> string" where
  "join sep [] = []"
| "join sep [x] = x"
| "join sep (x # y # ys) = x @ sep @ join sep (y # ys)"

text \<open>
  \<open>`${v}`\<close>: the string a template literal puts in place of a value whose conversion does
  not throw. An array is its elements' strings joined by commas, with nothing for \<open>null\<close>;
  an object is \<open>[object Object]\<close>.
\<close>

fun template :: "json \<Rightarrow> string" where
  "template JNull = ''null''"
| "template (JBool b) = (if b then ''true'' else ''false'')"
| "template (JNum x) = Number_toString x"
| "template (JStr s) = s"
| "template (JArr xs) = join '','' (map (\<lambda>v. if v = JNull then [] else template v) xs)"
| "template (JObj members) = ''[object Object]''"

text \<open>
  The conversion throws a \<open>TypeError\<close> on an object with a member of its own named
  \<open>toString\<close> (a JSON value is never callable, and \<open>valueOf\<close> gives the object back), and on
  an array that holds such an object.
\<close>

fun throws :: "json \<Rightarrow> bool" where
  "throws (JArr xs) = list_ex throws xs"
| "throws (JObj members) = (''toString'' \<in> set (map fst members))"
| "throws v = False"

text \<open>\<open>if (v)\<close>: JavaScript's truthiness.\<close>

fun truthy :: "json \<Rightarrow> bool" where
  "truthy JNull = False"
| "truthy (JBool b) = b"
| "truthy (JNum x) = (\<not> is_zero x)"
| "truthy (JStr s) = (s \<noteq> [])"
| "truthy (JArr xs) = True"
| "truthy (JObj members) = True"

section \<open>Requests, responses and the generic fetch wrapper\<close>

datatype js_error =
    Error string        \<comment> \<open>\<open>new Error(message)\<close>\<close>
  | TypeError string    \<comment> \<open>a failed conversion; the rejection of \<open>fetch\<close> itself\<close>
  | SyntaxError string  \<comment> \<open>the rejection of \<open>response.json()\<close>\<close>

definition cannot_convert :: js_error where
  "cannot_convert = TypeError ''Cannot convert object to primitive value''"


datatype req_body = Json json | Blob

record request =
  url :: string
  http_method :: string
  body :: "req_body option"

text \<open>
  A response has its HTTP status and what \<open>response.json()\<close> settles with: the parsed
  body, or the parser's rejection. \<open>response.ok\<close> is the status being in 200..299.
\<close>

record 'a response =
  status :: nat
  json_body :: "js_error + 'a"

definition ok :: "'a response \<Rightarrow> bool" where
  "ok r = (200 \<le> status r \<and> status r \<le> 299)"

datatype 'a fetch_result =
    Rejected js_error
  | Resolved "'a response"

text \<open>
  What the code can observe and change outside its own variables: the console, the
  requests handed to \<open>fetch\<close>, and the calls of the \<open>NovaBot\<close> helper object (toasts and
  the loading overlay), which the role dashboards use and do not define.
\<close>

datatype novabot_call = showToast string string | showLoading bool

record browser =
  console :: "string list"
  requests :: "request list"
  novabot :: "novabot_call list"

text \<open>
  \<open>_fetch(url, options)\<close>: the same function body stands in each of the four API
  modules. The second argument is what \<open>fetch\<close> settles with for this request. The
  request's headers play no part in what the wrapper returns and are left out.
  \<^verbatim>\<open>
    try {
        const response = await fetch(url, {...});
        if (!response.ok) { throw new Error(`HTTP error! status: ${response.status}`); }
        return await response.json();
    } catch (error) { console.error('API Error:', error); throw error; }
  \<close>
\<close>

definition http_error :: "nat \<Rightarrow> js_error" where
  "http_error st = Error (''HTTP error! status: '' @ number_string (int st))"

definition API_fetch ::
  "request \<Rightarrow> 'a fetch_result \<Rightarrow> 'b browser_scheme \<Rightarrow> (js_error + 'a) \<times> 'b browser_scheme" where
  "API_fetch req settled w =
     (let w1 = w\<lparr>requests := requests w @ [req]\<rparr>;
          tried = (case settled of
                     Rejected e \<Rightarrow> Inl e
                   | Resolved response \<Rightarrow>
                       if \<not> ok response then Inl (http_error (status response))
                       else json_body response)
      in case tried of
           Inl error \<Rightarrow> (Inl error, w1\<lparr>console := console w1 @ [''API Error:'']\<rparr>)
         | Inr parsed \<Rightarrow> (Inr parsed, w1))"

datatype api_module = CaregiverAPI | PrimaryUserAPI | EmergencyAPI | HealthProfessionalAPI

fun module_fetch ::
  "api_module \<Rightarrow> request \<Rightarrow> 'a fetch_result \<Rightarrow> 'b browser_scheme
     \<Rightarrow> (js_error + 'a) \<times> 'b browser_scheme" where
  "module_fetch CaregiverAPI = API_fetch"
| "module_fetch PrimaryUserAPI = API_fetch"
| "module_fetch EmergencyAPI = API_fetch"
| "module_fetch HealthProfessionalAPI = API_fetch"

fun baseURL :: "api_module \<Rightarrow> string" where
  "baseURL CaregiverAPI = ''/caregiver/api''"
| "baseURL PrimaryUserAPI = ''/primary/api''"
| "baseURL EmergencyAPI = ''/emergency/api''"
| "baseURL HealthProfessionalAPI = ''/health-professional/api''"

definition browser0 :: browser where
  "browser0 = \<lparr>console = [], requests = [], novabot = []\<rparr>"

section \<open>The API modules: one request per method\<close>

text \<open>
  Each method of an API module builds one URL from the module's \<open>baseURL\<close> and hands it
  to the module's \<open>_fetch\<close>. A call is the method with the arguments it was given:
  JSON values, interpolated by the template literal. An argument the caller leaves out is
  given here as the default the method declares for it.
\<close>

definition patientId :: string where
  "patientId = ''patient_001''"

datatype api_call =
    CaregiverAPI_getPatientStatus
  | CaregiverAPI_getLocation
  | CaregiverAPI_getAlerts json json            \<comment> \<open>limit, severity\<close>
  | CaregiverAPI_markAlertRead json             \<comment> \<open>alertId\<close>
  | CaregiverAPI_getBattery
  | CaregiverAPI_getVideoStream
  | PrimaryUserAPI_getInputMode
  | PrimaryUserAPI_setInputMode json            \<comment> \<open>mode\<close>
  | PrimaryUserAPI_getVisualFeedback
  | PrimaryUserAPI_sendVisualFeedback json json \<comment> \<open>text, duration\<close>
  | PrimaryUserAPI_getNextMedication json       \<comment> \<open>userId\<close>
  | PrimaryUserAPI_getMedicationSchedules json  \<comment> \<open>userId\<close>
  | PrimaryUserAPI_queryMedical json json       \<comment> \<open>question, context\<close>
  | PrimaryUserAPI_getFollowModeStatus
  | PrimaryUserAPI_toggleFollowMode bool json   \<comment> \<open>activate, personId\<close>
  | PrimaryUserAPI_identifyObject
  | PrimaryUserAPI_readText
  | PrimaryUserAPI_describeScene
  | PrimaryUserAPI_getSettings json             \<comment> \<open>userId\<close>
  | PrimaryUserAPI_updateAccessibility json json \<comment> \<open>mode, userId\<close>
  | PrimaryUserAPI_updatePrivacy json json      \<comment> \<open>sharingLevel, userId\<close>
  | EmergencyAPI_getEmergencyDetails
  | EmergencyAPI_getCriticalData
  | EmergencyAPI_updateStatus json json json    \<comment> \<open>status, responderId, notes\<close>
  | EmergencyAPI_getEnvironmentalData
  | EmergencyAPI_sendReassurance json           \<comment> \<open>message\<close>
  | EmergencyAPI_getNearbyFacilities json json  \<comment> \<open>lat, lng\<close>
  | HealthProfessionalAPI_getCurrentVitals
  | HealthProfessionalAPI_getVitalsHistory json json \<comment> \<open>type, hours\<close>
  | HealthProfessionalAPI_getHealthTrends
  | HealthProfessionalAPI_generateReport json   \<comment> \<open>reportType\<close>
  | HealthProfessionalAPI_getMedicationAdherence
  | HealthProfessionalAPI_getFallIncidents json \<comment> \<open>days\<close>

fun module_of :: "api_call \<Rightarrow> api_module" where
  "module_of CaregiverAPI_getPatientStatus = CaregiverAPI"
| "module_of CaregiverAPI_getLocation = CaregiverAPI"
| "module_of (CaregiverAPI_getAlerts _ _) = CaregiverAPI"
| "module_of (CaregiverAPI_markAlertRead _) = CaregiverAPI"
| "module_of CaregiverAPI_getBattery = CaregiverAPI"
| "module_of CaregiverAPI_getVideoStream = CaregiverAPI"
| "module_of PrimaryUserAPI_getInputMode = PrimaryUserAPI"
| "module_of (PrimaryUserAPI_setInputMode _) = PrimaryUserAPI"
| "module_of PrimaryUserAPI_getVisualFeedback = PrimaryUserAPI"
| "module_of (PrimaryUserAPI_sendVisualFeedback _ _) = PrimaryUserAPI"
| "module_of (PrimaryUserAPI_getNextMedication _) = PrimaryUserAPI"
| "module_of (PrimaryUserAPI_getMedicationSchedules _) = PrimaryUserAPI"
| "module_of (PrimaryUserAPI_queryMedical _ _) = PrimaryUserAPI"
| "module_of PrimaryUserAPI_getFollowModeStatus = PrimaryUserAPI"
| "module_of (PrimaryUserAPI_toggleFollowMode _ _) = PrimaryUserAPI"
| "module_of PrimaryUserAPI_identifyObject = PrimaryUserAPI"
| "module_of PrimaryUserAPI_readText = PrimaryUserAPI"
| "module_of PrimaryUserAPI_describeScene = PrimaryUserAPI"
| "module_of (PrimaryUserAPI_getSettings _) = PrimaryUserAPI"
| "module_of (PrimaryUserAPI_updateAccessibility _ _) = PrimaryUserAPI"
| "module_of (PrimaryUserAPI_updatePrivacy _ _) = PrimaryUserAPI"
| "module_of EmergencyAPI_getEmergencyDetails = EmergencyAPI"
| "module_of EmergencyAPI_getCriticalData = EmergencyAPI"
| "module_of (EmergencyAPI_updateStatus _ _ _) = EmergencyAPI"
| "module_of EmergencyAPI_getEnvironmentalData = EmergencyAPI"
| "module_of (EmergencyAPI_sendReassurance _) = EmergencyAPI"
| "module_of (EmergencyAPI_getNearbyFacilities _ _) = EmergencyAPI"
| "module_of HealthProfessionalAPI_getCurrentVitals = HealthProfessionalAPI"
| "module_of (HealthProfessionalAPI_getVitalsHistory _ _) = HealthProfessionalAPI"
| "module_of HealthProfessionalAPI_getHealthTrends = HealthProfessionalAPI"
| "module_of (HealthProfessionalAPI_generateReport _) = HealthProfessionalAPI"
| "module_of HealthProfessionalAPI_getMedicationAdherence = HealthProfessionalAPI"
| "module_of (HealthProfessionalAPI_getFallIncidents _) = HealthProfessionalAPI"

definition GET :: "string \<Rightarrow> request" where
  "GET u = \<lparr>url = u, http_method = ''GET'', body = None\<rparr>"

definition POST :: "string \<Rightarrow> req_body option \<Rightarrow> request" where
  "POST u b = \<lparr>url = u, http_method = ''POST'', body = b\<rparr>"

text \<open>
  \<open>EmergencyAPI.init(emergencyId)\<close> stores \<open>emergencyId || 'emg_001'\<close>; before it the field
  is \<open>null\<close>. The field is the first argument of \<open>request_of\<close>.
\<close>

definition EmergencyAPI_init :: "json \<Rightarrow> json" where
  "EmergencyAPI_init emergencyId = (if truthy emergencyId then emergencyId else JStr ''emg_001'')"

fun request_of :: "json \<Rightarrow> api_call \<Rightarrow> request" where
  "request_of eid CaregiverAPI_getPatientStatus =
     GET (baseURL CaregiverAPI @ ''/patient/status/'' @ patientId)"
| "request_of eid CaregiverAPI_getLocation =
     GET (baseURL CaregiverAPI @ ''/patient/location/'' @ patientId)"
| "request_of eid (CaregiverAPI_getAlerts limit severity) =
     GET (baseURL CaregiverAPI @ ''/alerts/'' @ patientId @ ''?limit='' @ template limit
          @ (if truthy severity then ''&severity='' @ template severity else []))"
| "request_of eid (CaregiverAPI_markAlertRead alertId) =
     POST (baseURL CaregiverAPI @ ''/alerts/'' @ template alertId @ ''/read'') None"
| "request_of eid CaregiverAPI_getBattery =
     GET (baseURL CaregiverAPI @ ''/device/battery/'' @ patientId)"
| "request_of eid CaregiverAPI_getVideoStream =
     GET (baseURL CaregiverAPI @ ''/video/stream/'' @ patientId)"
| "request_of eid PrimaryUserAPI_getInputMode =
     GET (baseURL PrimaryUserAPI @ ''/input-mode'')"
| "request_of eid (PrimaryUserAPI_setInputMode mode) =
     POST (baseURL PrimaryUserAPI @ ''/input-mode'') (Some (Json (JObj [(''mode'', mode)])))"
| "request_of eid PrimaryUserAPI_getVisualFeedback =
     GET (baseURL PrimaryUserAPI @ ''/visual-feedback'')"
| "request_of eid (PrimaryUserAPI_sendVisualFeedback text duration) =
     POST (baseURL PrimaryUserAPI @ ''/visual-feedback'')
       (Some (Json (JObj [(''text'', text), (''duration'', duration)])))"
| "request_of eid (PrimaryUserAPI_getNextMedication userId) =
     GET (baseURL PrimaryUserAPI @ ''/medication/next?user_id='' @ template userId)"
| "request_of eid (PrimaryUserAPI_getMedicationSchedules userId) =
     GET (baseURL PrimaryUserAPI @ ''/medication/schedules?user_id='' @ template userId)"
| "request_of eid (PrimaryUserAPI_queryMedical question context) =
     POST (baseURL PrimaryUserAPI @ ''/medical-query'')
       (Some (Json (JObj [(''question'', question), (''context'', context)])))"
| "request_of eid PrimaryUserAPI_getFollowModeStatus =
     GET (baseURL PrimaryUserAPI @ ''/navigation/follow-mode'')"
| "request_of eid (PrimaryUserAPI_toggleFollowMode activate personId) =
     POST (baseURL PrimaryUserAPI @ ''/navigation/follow-mode'')
       (Some (Json (JObj [(''activate'', JBool activate), (''person_id'', personId)])))"
| "request_of eid PrimaryUserAPI_identifyObject =
     POST (baseURL PrimaryUserAPI @ ''/vision/identify'') (Some Blob)"
| "request_of eid PrimaryUserAPI_readText =
     POST (baseURL PrimaryUserAPI @ ''/vision/read-text'') (Some Blob)"
| "request_of eid PrimaryUserAPI_describeScene =
     POST (baseURL PrimaryUserAPI @ ''/vision/describe-scene'') (Some Blob)"
| "request_of eid (PrimaryUserAPI_getSettings userId) =
     GET (baseURL PrimaryUserAPI @ ''/settings?user_id='' @ template userId)"
| "request_of eid (PrimaryUserAPI_updateAccessibility mode userId) =
     POST (baseURL PrimaryUserAPI @ ''/settings/accessibility'')
       (Some (Json (JObj [(''user_id'', userId), (''mode'', mode)])))"
| "request_of eid (PrimaryUserAPI_updatePrivacy sharingLevel userId) =
     POST (baseURL PrimaryUserAPI @ ''/settings/privacy'')
       (Some (Json (JObj [(''user_id'', userId), (''sharing_level'', sharingLevel)])))"
| "request_of eid EmergencyAPI_getEmergencyDetails =
     GET (baseURL EmergencyAPI @ ''/emergency/'' @ template eid)"
| "request_of eid EmergencyAPI_getCriticalData =
     GET (baseURL EmergencyAPI @ ''/emergency/'' @ template eid @ ''/critical'')"
| "request_of eid (EmergencyAPI_updateStatus st responderId notes) =
     POST (baseURL EmergencyAPI @ ''/emergency/'' @ template eid @ ''/status'')
       (Some (Json (JObj [(''status'', st), (''responder_id'', responderId), (''notes'', notes)])))"
| "request_of eid EmergencyAPI_getEnvironmentalData =
     GET (baseURL EmergencyAPI @ ''/emergency/'' @ template eid @ ''/environmental'')"
| "request_of eid (EmergencyAPI_sendReassurance message) =
     POST (baseURL EmergencyAPI @ ''/emergency/'' @ template eid @ ''/reassure'')
       (Some (Json (JObj [(''message'', message)])))"
| "request_of eid (EmergencyAPI_getNearbyFacilities lat lng) =
     GET (baseURL EmergencyAPI @ ''/facilities?lat='' @ template lat @ ''&lng='' @ template lng)"
| "request_of eid HealthProfessionalAPI_getCurrentVitals =
     GET (baseURL HealthProfessionalAPI @ ''/patient/vitals/'' @ patientId)"
| "request_of eid (HealthProfessionalAPI_getVitalsHistory type hours) =
     GET (baseURL HealthProfessionalAPI @ ''/patient/vitals/'' @ patientId @ ''/history?hours=''
          @ template hours @ (if truthy type then ''&type='' @ template type else []))"
| "request_of eid HealthProfessionalAPI_getHealthTrends =
     GET (baseURL HealthProfessionalAPI @ ''/patient/trends/'' @ patientId)"
| "request_of eid (HealthProfessionalAPI_generateReport reportType) =
     POST (baseURL HealthProfessionalAPI @ ''/patient/report/'' @ patientId)
       (Some (Json (JObj [(''type'', reportType)])))"
| "request_of eid HealthProfessionalAPI_getMedicationAdherence =
     GET (baseURL HealthProfessionalAPI @ ''/patient/medication-adherence/'' @ patientId)"
| "request_of eid (HealthProfessionalAPI_getFallIncidents days) =
     GET (baseURL HealthProfessionalAPI @ ''/patient/falls/'' @ patientId @ ''?days='' @ template days)"

text \<open>The values a method interpolates into its URL, in the order of the template literal.\<close>

fun url_holes :: "json \<Rightarrow> api_call \<Rightarrow> json list" where
  "url_holes eid (CaregiverAPI_getAlerts limit severity) =
     limit # (if truthy severity then [severity] else [])"
| "url_holes eid (CaregiverAPI_markAlertRead alertId) = [alertId]"
| "url_holes eid (PrimaryUserAPI_getNextMedication userId) = [userId]"
| "url_holes eid (PrimaryUserAPI_getMedicationSchedules userId) = [userId]"
| "url_holes eid (PrimaryUserAPI_getSettings userId) = [userId]"
| "url_holes eid EmergencyAPI_getEmergencyDetails = [eid]"
| "url_holes eid EmergencyAPI_getCriticalData = [eid]"
| "url_holes eid (EmergencyAPI_updateStatus st responderId notes) = [eid]"
| "url_holes eid EmergencyAPI_getEnvironmentalData = [eid]"
| "url_holes eid (EmergencyAPI_sendReassurance message) = [eid]"
| "url_holes eid (EmergencyAPI_getNearbyFacilities lat lng) = [lat, lng]"
| "url_holes eid (HealthProfessionalAPI_getVitalsHistory type hours) =
     hours # (if truthy type then [type] else [])"
| "url_holes eid (HealthProfessionalAPI_getFallIncidents days) = [days]"
| "url_holes eid c = []"

text \<open>
  A call of an API method. When the conversion of an interpolated value throws, the
  method throws before it reaches \<open>_fetch\<close>: no request, nothing on the console. Otherwise
  its request goes through its module's \<open>_fetch\<close>.
\<close>

definition api ::
  "json \<Rightarrow> api_call \<Rightarrow> 'a fetch_result \<Rightarrow> 'b browser_scheme
     \<Rightarrow> (js_error + 'a) \<times> 'b browser_scheme" where
  "api eid c settled w =
     (if list_ex throws (url_holes eid c) then (Inl cannot_convert, w)
      else module_fetch (module_of c) (request_of eid c) settled w)"

text \<open>
  The main dashboard script calls \<open>fetch\<close> itself, with literal URLs:
  \<open>loadDashboardStats\<close>, \<open>loadAlerts\<close>, \<open>loadChartData\<close> and \<open>refreshHealth\<close>.
\<close>

datatype main_fetch = loadDashboardStats | main_loadAlerts | loadChartData | refreshHealth

fun main_request :: "main_fetch \<Rightarrow> request" where
  "main_request loadDashboardStats = GET ''/api/stats''"
| "main_request main_loadAlerts = GET ''/api/alerts?per_page=10''"
| "main_request loadChartData = GET ''/api/stats/daily?days=7''"
| "main_request refreshHealth = GET ''/api/health''"

text \<open>Every REST request of the dashboards: through an API module, or from the main script.\<close>

datatype issued = by_module json api_call | by_main_script main_fetch

fun issued_url :: "issued \<Rightarrow> string" where
  "issued_url (by_module eid c) = url (request_of eid c)"
| "issued_url (by_main_script f) = url (main_request f)"

definition role_modules :: "api_module list" where
  "role_modules = [CaregiverAPI, PrimaryUserAPI, EmergencyAPI, HealthProfessionalAPI]"

definition under_role_prefix :: "string \<Rightarrow> bool" where
  "under_role_prefix u = list_ex (\<lambda>m. prefix (baseURL m) u) role_modules"

section \<open>The document\<close>

text \<open>
  The templates provide the elements the controllers look up by id; an element is what
  the controllers write: its text, its class list and the width of its style.
\<close>

record element =
  textContent :: string
  classList :: "string list"
  style_width :: string

type_synonym document = "string \<Rightarrow> element"

definition set_textContent :: "string \<Rightarrow> string \<Rightarrow> document \<Rightarrow> document" where
  "set_textContent i v d = d(i := (d i)\<lparr>textContent := v\<rparr>)"

definition set_style_width :: "string \<Rightarrow> string \<Rightarrow> document \<Rightarrow> document" where
  "set_style_width i v d = d(i := (d i)\<lparr>style_width := v\<rparr>)"

text \<open>\<open>classList.add\<close> appends the tokens that are not there, \<open>classList.remove\<close> drops them.\<close>

definition classList_add :: "string \<Rightarrow> string list \<Rightarrow> document \<Rightarrow> document" where
  "classList_add i tokens d =
     d(i := (d i)\<lparr>classList := fold (\<lambda>t cl. if t \<in> set cl then cl else cl @ [t]) tokens (classList (d i))\<rparr>)"

definition classList_remove :: "string \<Rightarrow> string list \<Rightarrow> document \<Rightarrow> document" where
  "classList_remove i tokens d =
     d(i := (d i)\<lparr>classList := filter (\<lambda>c. c \<notin> set tokens) (classList (d i))\<rparr>)"

record ui = browser +
  document :: document

definition blank_document :: document where
  "blank_document = (\<lambda>i. \<lparr>textContent = [], classList = [], style_width = []\<rparr>)"

text \<open>
  \<open>obj[key] || fallback\<close> on an object literal of strings. A key the literal does not hold
  is looked up in \<open>Object.prototype\<close>, whose members are functions (and \<open>__proto__\<close>, an
  object): truthy, so the fallback is not taken. The string an interpolation makes of such
  a member is the browser's own and is not written out here.
\<close>

definition Object_prototype :: "string list" where
  "Object_prototype =
     [''constructor'', ''hasOwnProperty'', ''isPrototypeOf'', ''propertyIsEnumerable'',
      ''toLocaleString'', ''toString'', ''valueOf'', ''__proto__'', ''__defineGetter__'',
      ''__defineSetter__'', ''__lookupGetter__'', ''__lookupSetter__'']"

datatype class_text = class_names string | inherited_member string

definition own :: "(string \<times> string) list \<Rightarrow> string \<Rightarrow> string" where
  "own obj key = (case map_of obj key of Some v \<Rightarrow> v | None \<Rightarrow> [])"

definition lookup_or :: "(string \<times> string) list \<Rightarrow> string \<Rightarrow> string \<Rightarrow> class_text" where
  "lookup_or obj key fallback =
     (case map_of obj key of
        Some v \<Rightarrow> if v \<noteq> [] then class_names v else class_names fallback
      | None \<Rightarrow> if key \<in> set Object_prototype then inherited_member key
                else class_names fallback)"

text \<open>
  What the HTML parser makes of a text that was written into \<open>innerHTML\<close>, inside an
  element or inside a double-quoted attribute value. A plain character stands for itself:
  one that starts no markup and no character reference, ends no attribute value and is
  no control character. The character reference \<open>&amp;\<close> stands for \<open>&\<close>. Any other text
  is not followed: \<open>None\<close>.
\<close>

definition plain_char :: "char \<Rightarrow> bool" where
  "plain_char c =
     (c \<notin> set [CHR ''&'', CHR ''<'', CHR ''>'', CHR 0x22, CHR 0x27]
      \<and> 32 \<le> (of_char c :: nat) \<and> (of_char c :: nat) \<noteq> 127)"


fun parsed_text :: "string \<Rightarrow> string option" where
  "parsed_text [] = Some []"
| "parsed_text (c # cs) =
     (if plain_char c then map_option ((#) c) (parsed_text cs)
      else if c = CHR ''&'' \<and> take 4 cs = ''amp;''
      then map_option ((#) (CHR ''&'')) (parsed_text (drop 4 cs))
      else None)"

section \<open>The caregiver dashboard\<close>

text \<open>
  The JSON envelope \<open>{ success, <payload> }\<close>; \<open>payload\<close> stands for the one named field
  of each endpoint (\<open>status\<close>, \<open>battery\<close>, \<open>message\<close>; \<open>alerts\<close> with \<open>unread\<close>).
\<close>

record 'p envelope =
  success :: bool
  payload :: 'p

text \<open>A settlement the controllers take as a success: 2xx, a parsed body, \<open>success\<close> true.\<close>

definition succeeded :: "'p envelope fetch_result \<Rightarrow> bool" where
  "succeeded settled =
     (case settled of
        Rejected e \<Rightarrow> False
      | Resolved r \<Rightarrow> ok r \<and> (case json_body r of Inl e \<Rightarrow> False | Inr result \<Rightarrow> success result))"

record patient_status =
  current_activity :: string
  location :: string
  last_movement :: string
  wellbeing_score :: json

record battery =
  level :: int

record alert =
  alert_id :: json
  alert_severity :: string
  alert_type :: string
  alert_message :: string
  alert_location :: string
  alert_timestamp :: string
  alert_read :: bool

record alerts_payload =
  alerts :: "alert list"
  unread :: js_number

text \<open>
  One \<open>.alert-item\<close> element: the classes, attributes and texts \<open>renderAlerts\<close>
  interpolates into its markup, and the alert id its click handler was attached with, if
  it has one.
\<close>

record alert_item =
  color_class :: class_text
  opacity_class :: string
  data_alert_id :: string
  data_unread :: bool
  badge_class :: class_text
  severity_text :: string
  type_text :: string
  message_text :: string
  unread_dot :: bool
  location_text :: string
  time_text :: string
  onclick :: "string option"

text \<open>
  What \<open>#alertsList\<close> holds: the placeholder paragraph, the alert items, or the elements
  the parser makes of markup it does not read back as written, which are not followed
  here.
\<close>

datatype alerts_view = no_alerts_message | alert_items "alert_item list" | other_markup


record caregiver_ui = ui +
  currentFilter :: string
  alertsList :: alerts_view

text \<open>The controller as its constructor leaves it (\<open>currentFilter = 'all'\<close>), on a blank page.\<close>

definition caregiver_ui0 :: caregiver_ui where
  "caregiver_ui0 =
     \<lparr>console = [], requests = [], novabot = [], document = blank_document,
      currentFilter = ''all'', alertsList = no_alerts_message\<rparr>"



definition battery_colors :: "string list" where
  "battery_colors = [''bg-green-500'', ''bg-yellow-500'', ''bg-red-500'']"

definition loadBattery ::
  "battery envelope fetch_result \<Rightarrow> caregiver_ui \<Rightarrow> caregiver_ui" where
  "loadBattery settled s =
     (case api JNull CaregiverAPI_getBattery settled s of
        (Inr result, s1) \<Rightarrow>
          if success result then
            let lvl = level (payload result);
                d1 = set_textContent ''batteryLevel'' (number_string lvl @ ''%'') (document s1);
                d2 = set_style_width ''batteryBar'' (number_string lvl @ ''%'') d1;
                d3 = classList_remove ''batteryBar'' battery_colors d2;
                d4 = (if lvl > 50 then classList_add ''batteryBar'' [''bg-green-500''] d3
                      else if lvl > 20 then classList_add ''batteryBar'' [''bg-yellow-500''] d3
                      else classList_add ''batteryBar'' [''bg-red-500''] d3);
                s2 = s1\<lparr>document := d4\<rparr>
            in if lvl < 20
               then s2\<lparr>novabot := novabot s2 @
                      [showToast (''Warning: Battery low ('' @ number_string lvl @ ''%)'') ''warning'']\<rparr>
               else s2
          else s1
      | (Inl error, s1) \<Rightarrow> s1\<lparr>console := console s1 @ [''Failed to load battery:'']\<rparr>)"

definition severityColors :: "(string \<times> string) list" where
  "severityColors =
     [(''critical'', ''bg-red-50 border-red-300''),
      (''high'', ''bg-orange-50 border-orange-300''),
      (''medium'', ''bg-yellow-50 border-yellow-300''),
      (''low'', ''bg-blue-50 border-blue-300'')]"

definition severityBadges :: "(string \<times> string) list" where
  "severityBadges =
     [(''critical'', ''bg-red-500''),
      (''high'', ''bg-orange-500''),
      (''medium'', ''bg-yellow-500''),
      (''low'', ''bg-blue-500'')]"

definition color_of_severity :: "string \<Rightarrow> class_text" where
  "color_of_severity sev = lookup_or severityColors sev ''bg-gray-50 border-gray-300''"

definition badge_of_severity :: "string \<Rightarrow> class_text" where
  "badge_of_severity sev = lookup_or severityBadges sev ''bg-gray-500''"

text \<open>
  The markup of one alert, as the template literal writes it. \<open>formatRelativeTime\<close> is
  \<open>NovaBot\<close>'s, a parameter here.
\<close>

definition alert_markup :: "(string \<Rightarrow> string) \<Rightarrow> alert \<Rightarrow> alert_item" where
  "alert_markup formatRelativeTime a =
     \<lparr>color_class = color_of_severity (alert_severity a),
      opacity_class = (if alert_read a then ''opacity-50'' else []),
      data_alert_id = template (alert_id a),
      data_unread = (\<not> alert_read a),
      badge_class = badge_of_severity (alert_severity a),
      severity_text = alert_severity a,
      type_text = alert_type a,
      message_text = alert_message a,
      unread_dot = (\<not> alert_read a),
      location_text = alert_location a,
      time_text = formatRelativeTime (alert_timestamp a),
      onclick = None\<rparr>"

text \<open>
  The markup goes through \<open>innerHTML\<close>, unescaped: the element the parser makes of it has
  the parsed texts. It is followed when each interpolated text is and both classes are
  the literal's own; then the \<open>data-unread\<close> attribute is the one written and
  \<open>dataset.alertId\<close> is the parsed id.
\<close>

definition parsed_item :: "alert_item \<Rightarrow> alert_item option" where
  "parsed_item item =
     (case (color_class item, badge_class item) of
        (class_names c, class_names b) \<Rightarrow>
          Option.bind (parsed_text (data_alert_id item)) (\<lambda>alertId.
          Option.bind (parsed_text (severity_text item)) (\<lambda>severity.
          Option.bind (parsed_text (type_text item)) (\<lambda>type.
          Option.bind (parsed_text (message_text item)) (\<lambda>message.
          Option.bind (parsed_text (location_text item)) (\<lambda>location.
          Option.bind (parsed_text (time_text item)) (\<lambda>time.
            Some (item\<lparr>data_alert_id := alertId, severity_text := severity,
                       type_text := type, message_text := message,
                       location_text := location, time_text := time\<rparr>)))))))
      | _ \<Rightarrow> None)"


text \<open>
  \<open>querySelectorAll('.alert-item[data-unread="true"]').forEach(item => addEventListener ...)\<close>:
  the handler keeps the item's \<open>dataset.alertId\<close>.
\<close>

definition add_click_handler :: "alert_item \<Rightarrow> alert_item" where
  "add_click_handler item =
     (if data_unread item then item\<lparr>onclick := Some (data_alert_id item)\<rparr> else item)"

text \<open>
  \<open>renderAlerts(alerts)\<close>. The conversion of an alert's id may throw, before anything is
  assigned to \<open>innerHTML\<close>.
\<close>

definition renderAlerts ::
  "(string \<Rightarrow> string) \<Rightarrow> alert list \<Rightarrow> caregiver_ui \<Rightarrow> js_error + caregiver_ui" where
  "renderAlerts formatRelativeTime as s =
     (if length as = 0 then Inr (s\<lparr>alertsList := no_alerts_message\<rparr>)
      else if list_ex (\<lambda>a. throws (alert_id a)) as then Inl cannot_convert
      else
        case those (map (\<lambda>a. parsed_item (alert_markup formatRelativeTime a)) as) of
          Some items \<Rightarrow> Inr (s\<lparr>alertsList := alert_items (map add_click_handler items)\<rparr>)
        | None \<Rightarrow> Inr (s\<lparr>alertsList := other_markup\<rparr>))"

definition loadAlerts ::
  "(string \<Rightarrow> string) \<Rightarrow> alerts_payload envelope fetch_result \<Rightarrow> caregiver_ui \<Rightarrow> caregiver_ui" where
  "loadAlerts formatRelativeTime settled s =
     (let severity = (if currentFilter s = ''all'' then JNull else JStr (currentFilter s))
      in case api JNull (CaregiverAPI_getAlerts (JNum (js_integer 50)) severity) settled s of
           (Inr result, s1) \<Rightarrow>
             if success result then
               case renderAlerts formatRelativeTime (alerts (payload result)) s1 of
                 Inr s2 \<Rightarrow>
                   let d1 = set_textContent ''unreadCount''
                              (Number_toString (unread (payload result))) (document s2);
                       d2 = (if is_zero (unread (payload result))
                             then classList_add ''unreadCount'' [''hidden''] d1
                             else classList_remove ''unreadCount'' [''hidden''] d1)
                   in s2\<lparr>document := d2\<rparr>
               | Inl error \<Rightarrow> s1\<lparr>console := console s1 @ [''Failed to load alerts:'']\<rparr>
             else s1
         | (Inl error, s1) \<Rightarrow> s1\<lparr>console := console s1 @ [''Failed to load alerts:'']\<rparr>)"

text \<open>
  \<open>markAlertRead(alertId)\<close> of the controller: the first settlement is the mark-read
  request's, the second the one of the reload it may start.
\<close>

definition markAlertRead ::
  "(string \<Rightarrow> string) \<Rightarrow> string \<Rightarrow> unit envelope fetch_result
     \<Rightarrow> alerts_payload envelope fetch_result \<Rightarrow> caregiver_ui \<Rightarrow> caregiver_ui" where
  "markAlertRead formatRelativeTime alertId settled reload s =
     (case api JNull (CaregiverAPI_markAlertRead (JStr alertId)) settled s of
        (Inr result, s1) \<Rightarrow>
          if success result then loadAlerts formatRelativeTime reload s1 else s1
      | (Inl error, s1) \<Rightarrow> s1\<lparr>console := console s1 @ [''Failed to mark alert as read:'']\<rparr>)"

definition click ::
  "(string \<Rightarrow> string) \<Rightarrow> alert_item \<Rightarrow> unit envelope fetch_result
     \<Rightarrow> alerts_payload envelope fetch_result \<Rightarrow> caregiver_ui \<Rightarrow> caregiver_ui" where
  "click formatRelativeTime item settled reload s =
     (case onclick item of
        None \<Rightarrow> s
      | Some alertId \<Rightarrow> markAlertRead formatRelativeTime alertId settled reload s)"

text \<open>An unread alert, for concrete runs.\<close>

definition alert0 :: alert where
  "alert0 = \<lparr>alert_id = JStr ''a1'', alert_severity = ''critical'', alert_type = ''fall'',
     alert_message = ''Fall detected'', alert_location = ''Kitchen'',
     alert_timestamp = ''2025-01-01T10:00:00'', alert_read = False\<rparr>"

section \<open>The primary user's dashboard: follow mode\<close>

record primary_ui = ui +
  currentInputMode :: string
  followModeActive :: bool

definition primary_ui0 :: primary_ui where
  "primary_ui0 =
     \<lparr>console = [], requests = [], novabot = [], document = blank_document,
      currentInputMode = ''touch'', followModeActive = False\<rparr>"

text \<open>The check mark of the status text, as the bytes the source file holds.\<close>

definition status_mark :: string where
  "status_mark = [CHR 0xC3, CHR 0xA2, CHR 0xC5, CHR 0x93, CHR 0xE2, CHR 0x80, CHR 0x9C]"

definition updateFollowModeUI :: "bool \<Rightarrow> document \<Rightarrow> document" where
  "updateFollowModeUI active d =
     (if active then
        let d1 = classList_remove ''followModeToggle'' [''bg-gray-300''] d;
            d2 = classList_add ''followModeToggle'' [''bg-green-500''] d1;
            d3 = classList_remove ''followModeSlider'' [''translate-x-2''] d2;
            d4 = classList_add ''followModeSlider'' [''translate-x-18''] d3;
            d5 = set_textContent ''followModeStatus'' (status_mark @ '' Following active'') d4;
            d6 = classList_remove ''followModeStatus'' [''text-gray-600''] d5
        in classList_add ''followModeStatus'' [''text-green-600''] d6
      else
        let d1 = classList_remove ''followModeToggle'' [''bg-green-500''] d;
            d2 = classList_add ''followModeToggle'' [''bg-gray-300''] d1;
            d3 = classList_remove ''followModeSlider'' [''translate-x-18''] d2;
            d4 = classList_add ''followModeSlider'' [''translate-x-2''] d3;
            d5 = set_textContent ''followModeStatus'' ''Following inactive'' d4;
            d6 = classList_remove ''followModeStatus'' [''text-green-600''] d5
        in classList_add ''followModeStatus'' [''text-gray-600''] d6)"

definition toggleFollowMode ::
  "string envelope fetch_result \<Rightarrow> primary_ui \<Rightarrow> primary_ui" where
  "toggleFollowMode settled s =
     (let s0 = s\<lparr>novabot := novabot s @ [showLoading True]\<rparr>;
          activate = (\<not> followModeActive s0);
          personId = (if activate then JStr ''primary_caregiver'' else JNull);
          s3 = (case api JNull (PrimaryUserAPI_toggleFollowMode activate personId) settled s0 of
                  (Inr result, s1) \<Rightarrow>
                    if success result then
                      let s2 = s1\<lparr>followModeActive := activate,
                                    document := updateFollowModeUI activate (document s1)\<rparr>
                      in s2\<lparr>novabot := novabot s2 @ [showToast (payload result) ''success'']\<rparr>
                    else s1\<lparr>novabot := novabot s1 @ [showToast (payload result) ''error'']\<rparr>
                | (Inl error, s1) \<Rightarrow>
                    s1\<lparr>novabot := novabot s1 @ [showToast ''Failed to toggle follow mode'' ''error'']\<rparr>)
      in s3\<lparr>novabot := novabot s3 @ [showLoading False]\<rparr>)"

section \<open>The main dashboard: the activity list\<close>

record activity_item =
  icon_color :: class_text
  icon :: class_text
  title :: string
  time :: string

definition iconColors :: "(string \<times> string) list" where
  "iconColors =
     [(''success'', ''bg-success-soft''), (''danger'', ''bg-danger-soft''),
      (''warning'', ''bg-warning-soft''), (''info'', ''bg-info-soft'')]"

definition icons :: "(string \<times> string) list" where
  "icons =
     [(''success'', ''fa-check text-success''), (''danger'', ''fa-exclamation-triangle text-danger''),
      (''warning'', ''fa-bell text-warning''), (''info'', ''fa-info-circle text-info'')]"

definition activity_markup :: "string \<Rightarrow> string \<Rightarrow> string \<Rightarrow> activity_item" where
  "activity_markup ttl tm type =
     \<lparr>icon_color = lookup_or iconColors type (own iconColors ''info''),
      icon = lookup_or icons type (own icons ''info''),
      title = ttl, time = tm\<rparr>"

text \<open>
  \<open>addActivityItem(title, time, type)\<close>. The last argument is the \<open>.activity-item\<close>
  elements of \<open>.activity-list\<close>, first one first, or \<open>None\<close> when the page has no such list.
  \<^verbatim>\<open>
    activityList.insertAdjacentHTML('afterbegin', html);
    const items = activityList.querySelectorAll('.activity-item');
    if (items.length > 5) { items[items.length - 1].remove(); }
  \<close>
\<close>

definition addActivityItem ::
  "string \<Rightarrow> string \<Rightarrow> string \<Rightarrow> activity_item list option \<Rightarrow> activity_item list option" where
  "addActivityItem ttl tm type activityList =
     (case activityList of
        None \<Rightarrow> None
      | Some old \<Rightarrow>
          let items = activity_markup ttl tm type # old
          in if length items > 5 then Some (butlast items) else Some items)"

section \<open>Timers\<close>

text \<open>
  \<open>setInterval\<close> hands out a fresh positive handle and keeps the timer until
  \<open>clearInterval\<close> is given that handle. A callback is either a polling function of a
  controller (it calls the named loaders, which touch the document only) or the closure
  of \<open>playAlertSound\<close>. The page records every \<open>clearInterval\<close> call and the beeps played
  (frequency in Hz, duration in ms).
\<close>

datatype callback = calls "string list" | alarm_tick

record timer =
  handle :: nat
  callback :: callback
  delay :: nat

record page =
  timers :: "timer list"
  next_handle :: nat
  cleared :: "nat list"
  called :: "string list"
  alarmInterval :: "nat option"
  beepCount :: nat
  beeps :: "(nat \<times> nat) list"
  console_log :: "string list"

definition page0 :: page where
  "page0 = \<lparr>timers = [], next_handle = 1, cleared = [], called = [], alarmInterval = None,
            beepCount = 0, beeps = [], console_log = []\<rparr>"

definition setInterval :: "callback \<Rightarrow> nat \<Rightarrow> page \<Rightarrow> nat \<times> page" where
  "setInterval cb ms p =
     (next_handle p,
      p\<lparr>timers := timers p @ [\<lparr>handle = next_handle p, callback = cb, delay = ms\<rparr>],
        next_handle := Suc (next_handle p)\<rparr>)"

definition clearInterval :: "nat \<Rightarrow> page \<Rightarrow> page" where
  "clearInterval h p =
     p\<lparr>timers := filter (\<lambda>t. handle t \<noteq> h) (timers p), cleared := cleared p @ [h]\<rparr>"

subsection \<open>The controllers' polling\<close>

datatype controller = CaregiverUI | PrimaryUserUI | HealthProfessionalUI

fun startPolling :: "controller \<Rightarrow> page \<Rightarrow> page" where
  "startPolling CaregiverUI p =
     (let p1 = snd (setInterval (calls [''loadPatientStatus'']) 10000 p);
          p2 = snd (setInterval (calls [''loadLocation'']) 30000 p1);
          p3 = snd (setInterval (calls [''loadBattery'']) 60000 p2)
      in snd (setInterval (calls [''loadAlerts'']) 15000 p3))"
| "startPolling PrimaryUserUI p =
     (let p1 = snd (setInterval (calls [''loadVisualFeedback'']) 5000 p)
      in snd (setInterval (calls [''loadNextMedication'']) 30000 p1))"
| "startPolling HealthProfessionalUI p =
     (let p1 = snd (setInterval (calls [''loadCurrentVitals'']) 30000 p)
      in snd (setInterval (calls [''loadHealthTrends'', ''loadMedicationAdherence'']) 300000 p1))"

text \<open>\<open>EmergencyUI.startTimer\<close>: the elapsed-time clock, every second.\<close>

definition startTimer :: "page \<Rightarrow> page" where
  "startTimer p = snd (setInterval (calls [''timeElapsed'']) 1000 p)"

text \<open>The timers a function registers: those of the page after it that were not there before.\<close>

definition registered_by :: "(page \<Rightarrow> page) \<Rightarrow> page \<Rightarrow> timer list" where
  "registered_by f p = drop (length (timers p)) (timers (f p))"

subsection \<open>The alarm\<close>

definition maxBeeps :: nat where
  "maxBeeps = 9"

definition playBeep :: "nat \<Rightarrow> nat \<Rightarrow> page \<Rightarrow> page" where
  "playBeep frequency duration p = p\<lparr>beeps := beeps p @ [(frequency, duration)]\<rparr>"

text \<open>
  The callback \<open>playAlertSound\<close> gives to \<open>setInterval\<close>:
  \<^verbatim>\<open>
    if (beepCount >= maxBeeps) { clearInterval(alarmInterval); alarmInterval = null; return; }
    const freq = (beepCount % 2 === 0) ? 880 : 660;
    playBeep(freq, 0.15);
    beepCount++;
  \<close>
\<close>

definition freq :: "nat \<Rightarrow> nat" where
  "freq count = (if count mod 2 = 0 then 880 else 660)"

definition alarm_callback :: "page \<Rightarrow> page" where
  "alarm_callback p =
     (if beepCount p \<ge> maxBeeps then
        let p1 = (case alarmInterval p of Some h \<Rightarrow> clearInterval h p | None \<Rightarrow> p)
        in p1\<lparr>alarmInterval := None\<rparr>
      else
        let p1 = playBeep (freq (beepCount p)) 150 p
        in p1\<lparr>beepCount := beepCount p1 + 1\<rparr>)"

text \<open>
  What \<open>playAlertSound\<close> finds in the browser: whether an audio context can be
  constructed, and \<open>Notification.permission\<close> (\<open>None\<close>: no \<open>Notification\<close> object).
\<close>

record environment =
  audio_supported :: bool
  notification_permission :: "string option"

text \<open>
  \<open>playAlertSound()\<close>. \<open>beepCount\<close> is the variable of the latest invocation's closure: an
  invocation clears the interval of the one before it, so no older closure runs again.
\<close>

definition playAlertSound :: "environment \<Rightarrow> page \<Rightarrow> page" where
  "playAlertSound env p =
     (if \<not> audio_supported env then p\<lparr>console_log := console_log p @ [''Audio not supported:'']\<rparr>
      else
        let p0 = p\<lparr>beepCount := 0\<rparr>;
            p1 = (case alarmInterval p0 of Some h \<Rightarrow> clearInterval h p0 | None \<Rightarrow> p0);
            p2 = playBeep 880 150 p1;
            p3 = p2\<lparr>beepCount := beepCount p2 + 1\<rparr>;
            (h, p4) = setInterval alarm_tick 200 p3;
            p5 = p4\<lparr>alarmInterval := Some h\<rparr>
        in case notification_permission env of
             None \<Rightarrow> p5\<lparr>console_log := console_log p5 @ [''Audio not supported:'']\<rparr>
           | Some permission \<Rightarrow>
               if permission = ''granted'' then p5\<lparr>called := called p5 @ [''new Notification'']\<rparr>
               else if permission \<noteq> ''denied''
               then p5\<lparr>called := called p5 @ [''Notification.requestPermission'']\<rparr>
               else p5)"

text \<open>A browser with Web Audio, where the user has not yet answered the notification prompt.\<close>

definition env_ok :: environment where
  "env_ok = \<lparr>audio_supported = True, notification_permission = Some ''default''\<rparr>"

text \<open>A browser that has no audio context to construct.\<close>

definition env_no_audio :: environment where
  "env_no_audio = \<lparr>audio_supported = False, notification_permission = Some ''default''\<rparr>"

definition stopAlarm :: "page \<Rightarrow> page" where
  "stopAlarm p =
     (case alarmInterval p of
        Some h \<Rightarrow> (clearInterval h p)\<lparr>alarmInterval := None\<rparr>
      | None \<Rightarrow> p)"

subsection \<open>The page's events\<close>

fun run_callback :: "callback \<Rightarrow> page \<Rightarrow> page" where
  "run_callback (calls fs) p = p\<lparr>called := called p @ fs\<rparr>"
| "run_callback alarm_tick p = alarm_callback p"

text \<open>The browser fires a timer: its callback runs if the timer is still registered.\<close>

definition fire :: "nat \<Rightarrow> page \<Rightarrow> page" where
  "fire h p =
     (case find (\<lambda>t. handle t = h) (timers p) of
        None \<Rightarrow> p
      | Some t \<Rightarrow> run_callback (callback t) p)"

fun ticks :: "nat \<Rightarrow> nat \<Rightarrow> page \<Rightarrow> page" where
  "ticks 0 h p = p"
| "ticks (Suc n) h p = ticks n h (fire h p)"

text \<open>
  The scripts and what each does on \<open>DOMContentLoaded\<close>: the main dashboard script, its
  earlier version (kept beside the caregiver's API module), and the four controllers.
\<close>

datatype script =
  main_js | dashboard_js | caregiver_ui_js | primary_user_ui_js | health_professional_ui_js
  | emergency_ui_js

fun DOMContentLoaded :: "script \<Rightarrow> page \<Rightarrow> page" where
  "DOMContentLoaded main_js p =
     (let p1 = snd (setInterval (calls [''updateTime'']) 60000 p)
      in snd (setInterval (calls [''loadDashboardStats'']) 30000 p1))"
| "DOMContentLoaded dashboard_js p = snd (setInterval (calls [''updateTime'']) 60000 p)"
| "DOMContentLoaded caregiver_ui_js p = startPolling CaregiverUI p"
| "DOMContentLoaded primary_user_ui_js p = startPolling PrimaryUserUI p"
| "DOMContentLoaded health_professional_ui_js p = startPolling HealthProfessionalUI p"
| "DOMContentLoaded emergency_ui_js p = startTimer p"

datatype event =
    loaded script          \<comment> \<open>\<open>DOMContentLoaded\<close> reaches a script\<close>
  | fires nat              \<comment> \<open>the browser fires the timer of this handle\<close>
  | fall_alert environment \<comment> \<open>\<open>handleFallAlert\<close> calls \<open>playAlertSound\<close>\<close>
  | stop_alarm             \<comment> \<open>\<open>stopAlarm()\<close>\<close>

fun step :: "event \<Rightarrow> page \<Rightarrow> page" where
  "step (loaded sc) p = DOMContentLoaded sc p"
| "step (fires h) p = fire h p"
| "step (fall_alert env) p = playAlertSound env p"
| "step stop_alarm p = stopAlarm p"

definition run :: "event list \<Rightarrow> page \<Rightarrow> page" where
  "run es p = fold step es p"

text \<open>
  A page is well formed when the handles in use are below the next one to hand out and
  the handle in \<open>alarmInterval\<close>, if registered, is the alarm's.
\<close>

definition well_formed :: "page \<Rightarrow> bool" where
  "well_formed p =
     (list_all (\<lambda>t. handle t < next_handle p) (timers p)
      \<and> (case alarmInterval p of
            None \<Rightarrow> True
          | Some h \<Rightarrow> h < next_handle p
                      \<and> list_all (\<lambda>t. handle t \<noteq> h \<or> callback t = alarm_tick) (timers p)))"

text \<open>The timers of the page that poll: every timer but the alarm's.\<close>

definition polling_timers :: "page \<Rightarrow> timer list" where
  "polling_timers p = filter (\<lambda>t. callback t \<noteq> alarm_tick) (timers p)"

text \<open>
  No handle is handed out twice: a handle that was given to \<open>clearInterval\<close> is below the
  next one to hand out and names no timer of the page.
\<close>

definition cleared_are_gone :: "page \<Rightarrow> bool" where
  "cleared_are_gone p =
     list_all (\<lambda>h. h < next_handle p \<and> list_all (\<lambda>t. handle t \<noteq> h) (timers p)) (cleared p)"

section \<open>The text of a number\<close>

lemmas number_text =
  number_string_def js_integer_def decimal.simps digit_char_def strip_zeros.simps
  positive_text_def zeros_def Let_def





section \<open>The fetch wrapper: results and errors\<close>

lemma module_fetch_eq: "module_fetch m = API_fetch"
  by (cases m) simp_all

lemma API_fetch_result:
  "fst (API_fetch req settled w) =
     (case settled of
        Rejected e \<Rightarrow> Inl e
      | Resolved r \<Rightarrow> if ok r then json_body r else Inl (http_error (status r)))"
  by (simp add: API_fetch_def Let_def split: fetch_result.splits sum.splits)

text \<open>
  Claim C1, as stated: \<open>_fetch\<close> returns the parsed body when the response is 2xx and
  throws exactly when the response is not 2xx. It fails on a 2xx response whose body is
  not JSON: \<open>response.json()\<close> rejects inside the \<open>try\<close>, and the \<open>catch\<close> throws the parser's
  error on.
\<close>

theorem fetch_throws_on_2xx_with_unparsable_body:
  "ok (\<lparr>status = 200, json_body = Inl (SyntaxError ''Unexpected token <'')\<rparr> :: json response)
   \<and> fst (module_fetch CaregiverAPI
          \<lparr>url = ''/caregiver/api/device/battery/patient_001'', http_method = ''GET'', body = None\<rparr>
          (Resolved (\<lparr>status = 200, json_body = Inl (SyntaxError ''Unexpected token <'')\<rparr>
                     :: json response))
          browser0) = Inl (SyntaxError ''Unexpected token <'')"
  by (simp add: ok_def API_fetch_def Let_def)

text \<open>
  Claim C1, amended: in each of the four API modules, \<open>_fetch\<close> returns a value exactly when
  the response is 2xx and its body parses, and the value is the parsed body; on every
  response that is not 2xx it throws the error whose message is \<open>HTTP error! status: \<close>
  followed by the status code, whatever the body holds; it throws on the parser's error
  of a 2xx body and on the rejection of \<open>fetch\<close> itself.
\<close>

theorem fetch_wrapper_results:
  "(settled = Resolved r \<and> \<not> ok r \<longrightarrow>
      fst (module_fetch m req settled w) =
        Inl (Error (''HTTP error! status: '' @ number_string (int (status r)))))
   \<and> (settled = Resolved r \<and> ok r \<longrightarrow> fst (module_fetch m req settled w) = json_body r)
   \<and> (settled = Rejected e \<longrightarrow> fst (module_fetch m req settled w) = Inl e)
   \<and> (fst (module_fetch m req settled w) = Inr v
        \<longleftrightarrow> (\<exists>r'. settled = Resolved r' \<and> ok r' \<and> json_body r' = Inr v))"
proof -
  have res: "fst (module_fetch m req settled w) =
      (case settled of
         Rejected e \<Rightarrow> Inl e
       | Resolved r \<Rightarrow> if ok r then json_body r else Inl (http_error (status r)))"
    by (simp add: module_fetch_eq API_fetch_result)
  show ?thesis
    unfolding res by (cases settled) (auto simp: http_error_def)
qed

theorem fetch_wrapper_results_witness:
  "fst (module_fetch EmergencyAPI (GET ''/emergency/api/emergency/emg_001'')
         (Resolved \<lparr>status = 404, json_body = Inr (JObj [(''error'', JStr ''unknown emergency'')])\<rparr>)
         browser0)
     = Inl (Error ''HTTP error! status: 404'')
   \<and> fst (module_fetch EmergencyAPI (GET ''/emergency/api/emergency/emg_001'')
         (Resolved \<lparr>status = 200, json_body = Inr (JObj [(''success'', JBool True)])\<rparr>) browser0)
     = Inr (JObj [(''success'', JBool True)])
   \<and> fst (module_fetch EmergencyAPI (GET ''/emergency/api/emergency/emg_001'')
         (Rejected (TypeError ''Failed to fetch'') :: json fetch_result) browser0)
     = Inl (TypeError ''Failed to fetch'')"
  using fetch_wrapper_results
          [of "Resolved \<lparr>status = 404, json_body = Inr (JObj [(''error'', JStr ''unknown emergency'')])\<rparr>"
              "\<lparr>status = 404, json_body = Inr (JObj [(''error'', JStr ''unknown emergency'')])\<rparr>"
              EmergencyAPI "GET ''/emergency/api/emergency/emg_001''" browser0]
        fetch_wrapper_results
          [of "Resolved \<lparr>status = 200, json_body = Inr (JObj [(''success'', JBool True)])\<rparr>"
              "\<lparr>status = 200, json_body = Inr (JObj [(''success'', JBool True)])\<rparr>"
              EmergencyAPI "GET ''/emergency/api/emergency/emg_001''" browser0]
        fetch_wrapper_results
          [of "Rejected (TypeError ''Failed to fetch'') :: json fetch_result" _
              EmergencyAPI "GET ''/emergency/api/emergency/emg_001''" browser0
              "TypeError ''Failed to fetch''"]
  by (simp add: ok_def number_text)


section \<open>Request URLs and the role prefixes\<close>

text \<open>
  Claim C7, as stated: every REST request URL of the dashboard code is under a
  role-specific \<open>/api\<close> prefix. It fails on the main dashboard script: \<open>loadDashboardStats\<close>
  fetches \<open>/api/stats\<close>, which begins with no module's \<open>baseURL\<close>.
\<close>

theorem main_script_url_under_no_role_prefix:
  "issued_url (by_main_script loadDashboardStats) = ''/api/stats''
   \<and> \<not> under_role_prefix (issued_url (by_main_script loadDashboardStats))"
  by (simp add: under_role_prefix_def role_modules_def GET_def)

text \<open>
  Claim C7, amended: every request issued through one of the four role API modules has a
  URL that begins with that module's \<open>baseURL\<close>, and each \<open>baseURL\<close> ends in \<open>/api\<close>; the
  main dashboard script fetches from paths directly under \<open>/api\<close>, outside the role
  prefixes.
\<close>

theorem api_urls_under_module_prefix:
  "prefix (baseURL (module_of c)) (url (request_of eid c))
   \<and> suffix ''/api'' (baseURL (module_of c))
   \<and> prefix ''/api/'' (url (main_request f))"
proof (intro conjI)
  show "prefix (baseURL (module_of c)) (url (request_of eid c))"
    by (cases c) (simp_all add: GET_def POST_def del: baseURL.simps)
  have "suffix ''/api'' (baseURL m)" for m
    by (cases m) (simp_all add: suffix_def)
  then show "suffix ''/api'' (baseURL (module_of c))" .
  show "prefix ''/api/'' (url (main_request f))"
    by (cases f) (simp_all add: GET_def)
qed


section \<open>The controllers' API calls\<close>

lemma api_no_throw:
  "\<not> list_ex throws (url_holes eid c) \<Longrightarrow>
     api eid c settled w = module_fetch (module_of c) (request_of eid c) settled w"
  by (simp add: api_def)

lemma api_success:
  "ok r \<Longrightarrow> json_body r = Inr result \<Longrightarrow> \<not> list_ex throws (url_holes eid c) \<Longrightarrow>
     api eid c (Resolved r) w = (Inr result, w\<lparr>requests := requests w @ [request_of eid c]\<rparr>)"
  by (simp add: api_def module_fetch_eq API_fetch_def Let_def)

lemma api_cases:
  "\<not> list_ex throws (url_holes eid c) \<Longrightarrow>
   api eid c settled w =
     (case settled of
        Rejected e \<Rightarrow>
          (Inl e, w\<lparr>requests := requests w @ [request_of eid c],
                     console := console w @ [''API Error:'']\<rparr>)
      | Resolved r \<Rightarrow>
          if \<not> ok r
          then (Inl (http_error (status r)),
                w\<lparr>requests := requests w @ [request_of eid c],
                  console := console w @ [''API Error:'']\<rparr>)
          else (case json_body r of
                  Inl e \<Rightarrow>
                    (Inl e, w\<lparr>requests := requests w @ [request_of eid c],
                               console := console w @ [''API Error:'']\<rparr>)
                | Inr v \<Rightarrow> (Inr v, w\<lparr>requests := requests w @ [request_of eid c]\<rparr>)))"
  by (simp add: api_def module_fetch_eq API_fetch_def Let_def split: fetch_result.splits sum.splits)

text \<open>A method whose argument cannot be converted issues no request.\<close>

lemma api_throws:
  "list_ex throws (url_holes eid c) \<Longrightarrow> api eid c settled w = (Inl cannot_convert, w)"
  by (simp add: api_def)

section \<open>The caregiver's battery bar\<close>

lemma battery_classes:
  assumes "ok r" and "json_body r = Inr result" and "success result"
  shows "classList (document (loadBattery (Resolved r) s) ''batteryBar'') =
           filter (\<lambda>c. c \<notin> set [''bg-green-500'', ''bg-yellow-500'', ''bg-red-500''])
             (classList (document s ''batteryBar''))
           @ [if level (payload result) > 50 then ''bg-green-500''
              else if level (payload result) > 20 then ''bg-yellow-500'' else ''bg-red-500'']"
  using assms
  by (simp add: loadBattery_def api_success Let_def set_textContent_def set_style_width_def
        classList_add_def classList_remove_def battery_colors_def)

lemma battery_toasts:
  assumes "ok r" and "json_body r = Inr result" and "success result"
  shows "novabot (loadBattery (Resolved r) s) =
           novabot s @ (if level (payload result) < 20
             then [showToast (''Warning: Battery low ('' @ number_string (level (payload result))
                     @ ''%)'') ''warning'']
             else [])"
  using assms
  by (simp add: loadBattery_def api_success Let_def)

text \<open>
  Claim C10: for every battery level fetched with success, the bar carries exactly one of
  the three colour classes afterwards: green exactly when the level is above 50, yellow
  exactly when it is above 20 and at most 50, red exactly when it is at most 20. The
  low-battery warning toast is shown exactly when the level is below 20; so at the level
  20 the bar is red and no warning is shown.
\<close>

theorem battery_bar_color_and_warning:
  assumes "ok r" and "json_body r = Inr result" and "success result"
  shows "filter (\<lambda>c. c \<in> set battery_colors)
             (classList (document (loadBattery (Resolved r) s) ''batteryBar''))
           = [if level (payload result) > 50 then ''bg-green-500''
              else if 20 < level (payload result) \<and> level (payload result) \<le> 50 then ''bg-yellow-500''
              else ''bg-red-500'']
         \<and> (''bg-green-500'' \<in> set (classList (document (loadBattery (Resolved r) s) ''batteryBar''))
              \<longleftrightarrow> level (payload result) > 50)
         \<and> (''bg-yellow-500'' \<in> set (classList (document (loadBattery (Resolved r) s) ''batteryBar''))
              \<longleftrightarrow> 20 < level (payload result) \<and> level (payload result) \<le> 50)
         \<and> (''bg-red-500'' \<in> set (classList (document (loadBattery (Resolved r) s) ''batteryBar''))
              \<longleftrightarrow> level (payload result) \<le> 20)
         \<and> novabot (loadBattery (Resolved r) s) =
             novabot s @ (if level (payload result) < 20
               then [showToast (''Warning: Battery low ('' @ number_string (level (payload result))
                       @ ''%)'') ''warning'']
               else [])"
  unfolding battery_classes [OF assms] battery_toasts [OF assms] battery_colors_def
  by (auto simp: filter_empty_conv)

theorem battery_bar_at_level_20_witness:
  "filter (\<lambda>c. c \<in> set battery_colors)
      (classList (document (loadBattery
         (Resolved \<lparr>status = 200, json_body = Inr \<lparr>success = True, payload = \<lparr>level = 20\<rparr>\<rparr>\<rparr>)
         caregiver_ui0) ''batteryBar'')) = [''bg-red-500'']
   \<and> novabot (loadBattery
         (Resolved \<lparr>status = 200, json_body = Inr \<lparr>success = True, payload = \<lparr>level = 20\<rparr>\<rparr>\<rparr>)
         caregiver_ui0) = []"
  using battery_bar_color_and_warning
    [of "\<lparr>status = 200, json_body = Inr \<lparr>success = True, payload = \<lparr>level = 20\<rparr>\<rparr>\<rparr>"
        "\<lparr>success = True, payload = \<lparr>level = 20\<rparr>\<rparr>" caregiver_ui0]
  by (simp add: ok_def caregiver_ui0_def)


section \<open>Follow mode\<close>

text \<open>
  Claim C6: whatever the stored follow-mode flag \<open>b\<close> is, \<open>toggleFollowMode\<close> posts the
  negated value to the follow-mode endpoint, with \<open>person_id\<close> \<open>'primary_caregiver'\<close> when
  activating and \<open>null\<close> when deactivating; the stored flag becomes the negated value
  when the call succeeds, and stays \<open>b\<close> when the request fails or the response is
  unsuccessful.
\<close>

theorem toggle_follow_mode:
  "requests (toggleFollowMode settled s) =
     requests s @
       [POST ''/primary/api/navigation/follow-mode''
          (Some (Json (JObj [(''activate'', JBool (\<not> followModeActive s)),
                             (''person_id'', if \<not> followModeActive s
                                             then JStr ''primary_caregiver'' else JNull)])))]
   \<and> followModeActive (toggleFollowMode settled s) =
       (if succeeded settled then \<not> followModeActive s else followModeActive s)"
  by (simp add: toggleFollowMode_def api_cases succeeded_def Let_def
        split: fetch_result.splits sum.splits)

section \<open>The activity list\<close>

text \<open>
  Claim C9: on an activity list of at most 5 items, \<open>addActivityItem\<close> puts the new item
  first and leaves at most 5 items: the last (oldest) item is removed exactly when the
  list held 5 items, that is when it would exceed 5 with the new one.
\<close>

theorem add_activity_item_bound:
  assumes "length old \<le> 5"
  shows "addActivityItem ttl tm type (Some old) =
           Some (if length old = 5 then activity_markup ttl tm type # butlast old
                 else activity_markup ttl tm type # old)
         \<and> length (if length old = 5 then activity_markup ttl tm type # butlast old
                    else activity_markup ttl tm type # old) \<le> 5"
  using assms by (cases old) (auto simp: addActivityItem_def Let_def)

theorem add_activity_item_bound_witness:
  "addActivityItem ''Fall Detected'' ''Just now'' ''danger''
      (Some [activity_markup ''e'' ''5'' ''info'', activity_markup ''d'' ''4'' ''info'',
             activity_markup ''c'' ''3'' ''info'', activity_markup ''b'' ''2'' ''info'',
             activity_markup ''a'' ''1'' ''info''])
    = Some [activity_markup ''Fall Detected'' ''Just now'' ''danger'',
            activity_markup ''e'' ''5'' ''info'', activity_markup ''d'' ''4'' ''info'',
            activity_markup ''c'' ''3'' ''info'', activity_markup ''b'' ''2'' ''info'']"
  using add_activity_item_bound
    [of "[activity_markup ''e'' ''5'' ''info'', activity_markup ''d'' ''4'' ''info'',
          activity_markup ''c'' ''3'' ''info'', activity_markup ''b'' ''2'' ''info'',
          activity_markup ''a'' ''1'' ''info'']" "''Fall Detected''" "''Just now''" "''danger''"]
  by simp


section \<open>Polling periods\<close>

lemma timers_setInterval [simp]:
  "timers (snd (setInterval cb ms p)) = timers p @ [\<lparr>handle = next_handle p, callback = cb, delay = ms\<rparr>]"
  by (simp add: setInterval_def)

lemma next_handle_setInterval [simp]:
  "next_handle (snd (setInterval cb ms p)) = Suc (next_handle p)"
  by (simp add: setInterval_def)

lemma alarmInterval_setInterval [simp]:
  "alarmInterval (snd (setInterval cb ms p)) = alarmInterval p"
  by (simp add: setInterval_def)

lemma registered_startPolling:
  "map delay (registered_by (startPolling c) p) =
     (case c of CaregiverUI \<Rightarrow> [10000, 30000, 60000, 15000]
      | PrimaryUserUI \<Rightarrow> [5000, 30000]
      | HealthProfessionalUI \<Rightarrow> [30000, 300000])"
  by (cases c) (simp_all add: registered_by_def Let_def)

text \<open>
  Claim C2, amended: every timer a controller's \<open>startPolling\<close> registers has a period of at
  least 5 seconds and at most 300 seconds; those of the caregiver's and of the primary
  user's controllers lie between 5 and 60 seconds; the health professional's controller
  registers 30 seconds (vitals) and 300 seconds (trends and medication adherence).
\<close>

theorem polling_periods:
  "set (map delay (registered_by (startPolling c) p)) \<subseteq> {5000..300000}
   \<and> (c \<noteq> HealthProfessionalUI \<longrightarrow> set (map delay (registered_by (startPolling c) p)) \<subseteq> {5000..60000})
   \<and> map delay (registered_by (startPolling HealthProfessionalUI) p) = [30000, 300000]"
  unfolding registered_startPolling by (cases c) simp_all

theorem polling_periods_witness:
  "set (map delay (registered_by (startPolling CaregiverUI) page0)) \<subseteq> {5000..60000}
   \<and> set (map delay (registered_by (startPolling PrimaryUserUI) page0)) \<subseteq> {5000..60000}"
  using polling_periods [of CaregiverUI page0] polling_periods [of PrimaryUserUI page0]
  by simp

text \<open>
  Claim C2, as stated: every period registered in a \<open>startPolling\<close> lies between 5000 and
  60000 ms. It fails on the health professional's controller, which refreshes the trends
  every 300000 ms.
\<close>

theorem health_professional_polls_every_five_minutes:
  "map delay (registered_by (startPolling HealthProfessionalUI) page0) = [30000, 300000]
   \<and> \<not> set (map delay (registered_by (startPolling HealthProfessionalUI) page0))
         \<subseteq> {5000..60000}"
  by (simp add: registered_startPolling)

section \<open>The caregiver's patient status\<close>







section \<open>The caregiver's alert list\<close>

lemma no_throw_markAlertRead [simp]:
  "\<not> list_ex throws (url_holes eid (CaregiverAPI_markAlertRead (JStr alertId)))"
  by simp

lemma no_throw_getAlerts [simp]:
  "\<not> list_ex throws (url_holes eid (CaregiverAPI_getAlerts (JNum x)
       (if f = ''all'' then JNull else JStr f)))"
  by simp


lemma renderAlerts_requests:
  "renderAlerts fmt as s = Inr s' \<Longrightarrow> requests s' = requests s"
  by (auto simp: renderAlerts_def split: if_splits option.splits)

lemma loadAlerts_requests:
  "requests (loadAlerts fmt settled s) =
     requests s @ [request_of JNull (CaregiverAPI_getAlerts (JNum (js_integer 50))
        (if currentFilter s = ''all'' then JNull else JStr (currentFilter s)))]"
  by (auto simp: loadAlerts_def api_cases Let_def dest!: renderAlerts_requests
        split: fetch_result.splits sum.splits)

lemma markAlertRead_requests:
  "requests (markAlertRead fmt alertId marked reload s) =
     requests s @ [POST (''/caregiver/api/alerts/'' @ alertId @ ''/read'') None]
       @ (if succeeded marked
          then [request_of JNull (CaregiverAPI_getAlerts (JNum (js_integer 50))
                  (if currentFilter s = ''all'' then JNull else JStr (currentFilter s)))]
          else [])"
  by (simp add: markAlertRead_def api_cases succeeded_def loadAlerts_requests
        split: fetch_result.splits sum.splits)





text \<open>
  Two inputs that the amended claim leaves out. A severity that names a member of
  \<open>Object.prototype\<close> gets that member for its class, not the default. An id with the
  character reference \<open>&amp;\<close> is parsed to another text: the click posts to the endpoint
  of \<open>a&b\<close>, which is not the alert's id \<open>a&amp;b\<close>.
\<close>

lemma inherited_severity_has_no_default_class:
  "color_of_severity ''constructor'' = inherited_member ''constructor''"
  by (simp add: color_of_severity_def lookup_or_def severityColors_def Object_prototype_def)

lemma character_reference_in_id_is_decoded:
  "renderAlerts id [alert0\<lparr>alert_id := JStr ''a&amp;b''\<rparr>] caregiver_ui0
     = Inr (caregiver_ui0\<lparr>alertsList := alert_items
         [add_click_handler ((alert_markup id alert0)\<lparr>data_alert_id := ''a&b''\<rparr>)]\<rparr>)
   \<and> onclick (add_click_handler ((alert_markup id alert0)\<lparr>data_alert_id := ''a&b''\<rparr>))
       = Some ''a&b''
   \<and> requests (click id (add_click_handler ((alert_markup id alert0)\<lparr>data_alert_id := ''a&b''\<rparr>))
        (Resolved \<lparr>status = 404, json_body = Inr \<lparr>success = False, payload = ()\<rparr>\<rparr>)
        (Resolved \<lparr>status = 200,
           json_body = Inr \<lparr>success = True, payload = \<lparr>alerts = [], unread = js_zero\<rparr>\<rparr>\<rparr>)
        caregiver_ui0)
      = [POST ''/caregiver/api/alerts/a&b/read'' None]"
proof -
  have "parsed_item (alert_markup id (alert0\<lparr>alert_id := JStr ''a&amp;b''\<rparr>))
      = Some ((alert_markup id alert0)\<lparr>data_alert_id := ''a&b''\<rparr>)"
    by (simp add: parsed_item_def alert_markup_def alert0_def plain_char_def
          color_of_severity_def badge_of_severity_def lookup_or_def severityColors_def
          severityBadges_def)
  then have "renderAlerts id [alert0\<lparr>alert_id := JStr ''a&amp;b''\<rparr>] caregiver_ui0
     = Inr (caregiver_ui0\<lparr>alertsList := alert_items
         [add_click_handler ((alert_markup id alert0)\<lparr>data_alert_id := ''a&b''\<rparr>)]\<rparr>)"
    by (simp add: renderAlerts_def alert0_def)
  moreover have "onclick (add_click_handler ((alert_markup id alert0)\<lparr>data_alert_id := ''a&b''\<rparr>))
       = Some ''a&b''"
    by (simp add: add_click_handler_def alert_markup_def alert0_def)
  ultimately show ?thesis
    by (simp add: click_def markAlertRead_requests succeeded_def ok_def caregiver_ui0_def)
qed




section \<open>The alarm\<close>

lemma find_append_new:
  "list_all (\<lambda>t. handle t < h) ts \<Longrightarrow>
   find (\<lambda>t. handle t = h) (filter P ts @ [\<lparr>handle = h, callback = cb, delay = ms\<rparr>])
     = Some \<lparr>handle = h, callback = cb, delay = ms\<rparr>"
  by (induction ts) auto

lemma playAlertSound_state:
  assumes "well_formed p" and "audio_supported env"
  shows "alarmInterval (playAlertSound env p) = Some (next_handle p)"
    and "beepCount (playAlertSound env p) = 1"
    and "beeps (playAlertSound env p) = beeps p @ [(880, 150)]"
    and "find (\<lambda>t. handle t = next_handle p) (timers (playAlertSound env p))
           = Some \<lparr>handle = next_handle p, callback = alarm_tick, delay = 200\<rparr>"
proof -
  have lt: "list_all (\<lambda>t. handle t < next_handle p) (timers p)"
    using assms(1) by (simp add: well_formed_def)
  show "alarmInterval (playAlertSound env p) = Some (next_handle p)"
    using assms(2)
    by (simp add: playAlertSound_def Let_def setInterval_def playBeep_def clearInterval_def
          split: option.splits prod.splits)
  show "beepCount (playAlertSound env p) = 1"
    using assms(2)
    by (simp add: playAlertSound_def Let_def setInterval_def playBeep_def clearInterval_def
          split: option.splits prod.splits)
  show "beeps (playAlertSound env p) = beeps p @ [(880, 150)]"
    using assms(2)
    by (simp add: playAlertSound_def Let_def setInterval_def playBeep_def clearInterval_def
          split: option.splits prod.splits)
  have same: "find (\<lambda>t. handle t = next_handle p)
          (timers p @ [\<lparr>handle = next_handle p, callback = alarm_tick, delay = 200\<rparr>])
        = Some \<lparr>handle = next_handle p, callback = alarm_tick, delay = 200\<rparr>"
    using find_append_new [OF lt, of "\<lambda>t. True"] by simp
  show "find (\<lambda>t. handle t = next_handle p) (timers (playAlertSound env p))
           = Some \<lparr>handle = next_handle p, callback = alarm_tick, delay = 200\<rparr>"
    using assms(2) find_append_new [OF lt] same
    by (simp add: playAlertSound_def Let_def setInterval_def playBeep_def clearInterval_def
          split: option.splits prod.splits)
qed

lemma fire_beep:
  assumes "find (\<lambda>t. handle t = h) (timers q) = Some t" and "callback t = alarm_tick"
    and "beepCount q < 9"
  shows "fire h q = q\<lparr>beeps := beeps q @ [(freq (beepCount q), 150)], beepCount := Suc (beepCount q)\<rparr>"
  using assms
  by (simp add: fire_def alarm_callback_def maxBeeps_def playBeep_def Let_def)

lemma ticks_beeps:
  assumes "find (\<lambda>t. handle t = h) (timers q) = Some t" and "callback t = alarm_tick"
    and "beepCount q + n \<le> 9"
  shows "ticks n h q = q\<lparr>beeps := beeps q @ map (\<lambda>k. (freq k, 150)) [beepCount q ..< beepCount q + n],
                         beepCount := beepCount q + n\<rparr>"
  using assms
proof (induction n arbitrary: q)
  case 0
  then show ?case by simp
next
  case (Suc n)
  let ?q = "q\<lparr>beeps := beeps q @ [(freq (beepCount q), 150)], beepCount := Suc (beepCount q)\<rparr>"
  have f: "fire h q = ?q"
    using Suc.prems by (intro fire_beep) auto
  have "ticks n h ?q = ?q\<lparr>beeps := beeps ?q @ map (\<lambda>k. (freq k, 150)) [beepCount ?q ..< beepCount ?q + n],
                         beepCount := beepCount ?q + n\<rparr>"
    using Suc.prems by (intro Suc.IH) auto
  moreover have "[beepCount q ..< beepCount q + Suc n]
      = beepCount q # [Suc (beepCount q) ..< Suc (beepCount q) + n]"
    by (subst upt_rec) simp
  ultimately show ?case
    by (simp add: f del: upt_Suc)
qed

lemma fire_stop:
  assumes "find (\<lambda>t. handle t = h) (timers q) = Some t" and "callback t = alarm_tick"
    and "beepCount q = 9" and "alarmInterval q = Some h"
  shows "fire h q = q\<lparr>timers := filter (\<lambda>t. handle t \<noteq> h) (timers q), cleared := cleared q @ [h],
                       alarmInterval := None\<rparr>"
  using assms
  by (simp add: fire_def alarm_callback_def maxBeeps_def clearInterval_def Let_def)

lemma fire_unregistered:
  "find (\<lambda>t. handle t = h) (timers q) = None \<Longrightarrow> fire h q = q"
  by (simp add: fire_def)

lemma ticks_unregistered:
  "find (\<lambda>t. handle t = h) (timers q) = None \<Longrightarrow> ticks n h q = q"
  by (induction n) (simp_all add: fire_unregistered)

lemma ticks_add: "ticks (m + n) h q = ticks n h (ticks m h q)"
  by (induction m arbitrary: q) simp_all

lemma find_filter_out: "find (\<lambda>t. handle t = h) (filter (\<lambda>t. handle t \<noteq> h) ts) = None"
  by (induction ts) auto

section \<open>Timers that are never cleared\<close>

lemma well_formed_updates [simp]:
  "well_formed (p\<lparr>called := c\<rparr>) = well_formed p"
  "well_formed (p\<lparr>beeps := b\<rparr>) = well_formed p"
  "well_formed (p\<lparr>beepCount := n\<rparr>) = well_formed p"
  "well_formed (p\<lparr>console_log := l\<rparr>) = well_formed p"
  "well_formed (p\<lparr>cleared := cl\<rparr>) = well_formed p"
  by (simp_all add: well_formed_def cong: option.case_cong)

lemma polling_timers_updates [simp]:
  "polling_timers (p\<lparr>called := c\<rparr>) = polling_timers p"
  "polling_timers (p\<lparr>beeps := b\<rparr>) = polling_timers p"
  "polling_timers (p\<lparr>beepCount := n\<rparr>) = polling_timers p"
  "polling_timers (p\<lparr>console_log := l\<rparr>) = polling_timers p"
  "polling_timers (p\<lparr>cleared := cl\<rparr>) = polling_timers p"
  "polling_timers (p\<lparr>alarmInterval := a\<rparr>) = polling_timers p"
  by (simp_all add: polling_timers_def)

lemma wf_setInterval_calls:
  assumes "well_formed p"
  shows "well_formed (snd (setInterval (calls fs) ms p))"
    and "polling_timers (snd (setInterval (calls fs) ms p))
           = polling_timers p @ [\<lparr>handle = next_handle p, callback = calls fs, delay = ms\<rparr>]"
  using assms
  by (auto simp: well_formed_def polling_timers_def setInterval_def list_all_iff split: option.splits)

lemma wf_clear_alarm:
  assumes "well_formed p" and "alarmInterval p = Some h"
  shows "well_formed ((clearInterval h p)\<lparr>alarmInterval := None\<rparr>)"
    and "polling_timers ((clearInterval h p)\<lparr>alarmInterval := None\<rparr>) = polling_timers p"
proof -
  show "well_formed ((clearInterval h p)\<lparr>alarmInterval := None\<rparr>)"
    using assms by (auto simp: well_formed_def clearInterval_def list_all_iff)
  have "\<forall>t \<in> set (timers p). handle t = h \<longrightarrow> callback t = alarm_tick"
    using assms by (auto simp: well_formed_def list_all_iff)
  then have "filter (\<lambda>t. callback t \<noteq> alarm_tick) (filter (\<lambda>t. handle t \<noteq> h) (timers p))
      = filter (\<lambda>t. callback t \<noteq> alarm_tick) (timers p)"
    by (induction "timers p") (auto intro: filter_cong)
  then show "polling_timers ((clearInterval h p)\<lparr>alarmInterval := None\<rparr>) = polling_timers p"
    by (simp add: polling_timers_def clearInterval_def)
qed

lemma wf_stopAlarm:
  assumes "well_formed p"
  shows "well_formed (stopAlarm p) \<and> polling_timers (stopAlarm p) = polling_timers p"
  using assms wf_clear_alarm [of p]
  by (auto simp: stopAlarm_def split: option.splits)

lemma wf_alarm_callback:
  assumes "well_formed p"
  shows "well_formed (alarm_callback p) \<and> polling_timers (alarm_callback p) = polling_timers p"
proof (cases "beepCount p \<ge> maxBeeps")
  case True
  show ?thesis
  proof (cases "alarmInterval p")
    case None
    with True assms show ?thesis
      by (simp add: alarm_callback_def well_formed_def)
  next
    case (Some h)
    with True wf_clear_alarm [OF assms Some] show ?thesis
      by (simp add: alarm_callback_def)
  qed
next
  case False
  with assms show ?thesis
    by (simp add: alarm_callback_def Let_def playBeep_def)
qed

lemma wf_fire:
  assumes "well_formed p"
  shows "well_formed (fire h p) \<and> polling_timers (fire h p) = polling_timers p"
proof (cases "find (\<lambda>t. handle t = h) (timers p)")
  case None
  with assms show ?thesis by (simp add: fire_def)
next
  case (Some t)
  show ?thesis
  proof (cases "callback t")
    case (calls fs)
    with Some assms show ?thesis
      by (simp add: fire_def)
  next
    case alarm_tick
    with Some wf_alarm_callback [OF assms] show ?thesis
      by (simp add: fire_def)
  qed
qed

lemma wf_playAlertSound:
  assumes "well_formed p"
  shows "well_formed (playAlertSound env p) \<and> polling_timers (playAlertSound env p) = polling_timers p"
proof (cases "audio_supported env")
  case False
  with assms show ?thesis
    by (simp add: playAlertSound_def)
next
  case True
  define p1 where "p1 = (case alarmInterval p of Some h \<Rightarrow> clearInterval h (p\<lparr>beepCount := 0\<rparr>)
                         | None \<Rightarrow> p\<lparr>beepCount := 0\<rparr>)"
  have lt: "list_all (\<lambda>t. handle t < next_handle p) (timers p1)"
    and nh: "next_handle p1 = next_handle p"
    using assms by (auto simp: p1_def well_formed_def clearInterval_def list_all_iff split: option.splits)
  have pol: "polling_timers p1 = polling_timers p"
  proof (cases "alarmInterval p")
    case None
    then show ?thesis by (simp add: p1_def polling_timers_def)
  next
    case (Some h)
    have "polling_timers ((clearInterval h p)\<lparr>alarmInterval := None\<rparr>) = polling_timers p"
      using wf_clear_alarm [OF assms Some] by simp
    with Some show ?thesis by (simp add: p1_def polling_timers_def clearInterval_def)
  qed
  have t: "timers (playAlertSound env p)
      = timers p1 @ [\<lparr>handle = next_handle p, callback = alarm_tick, delay = 200\<rparr>]"
    and a: "alarmInterval (playAlertSound env p) = Some (next_handle p)"
    and n: "next_handle (playAlertSound env p) = Suc (next_handle p)"
    using True
    by (auto simp: playAlertSound_def p1_def Let_def setInterval_def playBeep_def clearInterval_def
          split: option.splits prod.splits)
  have "well_formed (playAlertSound env p)"
    using lt by (auto simp: well_formed_def t a n list_all_iff)
  moreover have "polling_timers (playAlertSound env p) = polling_timers p"
    using pol by (simp add: polling_timers_def t)
  ultimately show ?thesis by simp
qed

lemma wf_DOMContentLoaded:
  assumes "well_formed p"
  shows "well_formed (DOMContentLoaded sc p) \<and> prefix (polling_timers p) (polling_timers (DOMContentLoaded sc p))"
  using assms
  by (cases sc) (simp_all add: Let_def startTimer_def wf_setInterval_calls)

lemma wf_step:
  assumes "well_formed p"
  shows "well_formed (step e p) \<and> prefix (polling_timers p) (polling_timers (step e p))"
proof (cases e)
  case (loaded sc)
  with wf_DOMContentLoaded [OF assms] show ?thesis by simp
next
  case (fires h)
  with wf_fire [OF assms] show ?thesis by simp
next
  case (fall_alert env)
  with wf_playAlertSound [OF assms] show ?thesis by simp
next
  case stop_alarm
  with wf_stopAlarm [OF assms] show ?thesis by simp
qed

lemma wf_run:
  "well_formed p \<Longrightarrow>
     well_formed (run es p) \<and> prefix (polling_timers p) (polling_timers (run es p))"
proof (induction es arbitrary: p)
  case Nil
  then show ?case by (simp add: run_def)
next
  case (Cons e es)
  from wf_step [OF Cons.prems, of e]
  have 1: "well_formed (step e p)" and 2: "prefix (polling_timers p) (polling_timers (step e p))"
    by simp_all
  from Cons.IH [OF 1]
  have 3: "well_formed (run es (step e p))"
    and 4: "prefix (polling_timers (step e p)) (polling_timers (run es (step e p)))"
    by simp_all
  have "run (e # es) p = run es (step e p)" by (simp add: run_def)
  with 2 3 4 show ?case by (auto intro: prefix_order.trans)
qed

lemma wf_page0: "well_formed page0"
  by (simp add: well_formed_def page0_def)

lemma cleared_are_gone_updates [simp]:
  "cleared_are_gone (p\<lparr>called := c\<rparr>) = cleared_are_gone p"
  "cleared_are_gone (p\<lparr>beeps := b\<rparr>) = cleared_are_gone p"
  "cleared_are_gone (p\<lparr>beepCount := n\<rparr>) = cleared_are_gone p"
  "cleared_are_gone (p\<lparr>console_log := l\<rparr>) = cleared_are_gone p"
  "cleared_are_gone (p\<lparr>alarmInterval := a\<rparr>) = cleared_are_gone p"
  by (simp_all add: cleared_are_gone_def)

lemma gone_setInterval:
  "cleared_are_gone p \<Longrightarrow> cleared_are_gone (snd (setInterval cb ms p))"
  by (auto simp: cleared_are_gone_def setInterval_def list_all_iff)

lemma gone_clearInterval:
  "cleared_are_gone p \<Longrightarrow> h < next_handle p \<Longrightarrow> cleared_are_gone (clearInterval h p)"
  by (auto simp: cleared_are_gone_def clearInterval_def list_all_iff)

lemma gone_clear_alarm:
  assumes "well_formed p" and "cleared_are_gone p" and "alarmInterval p = Some h"
  shows "cleared_are_gone ((clearInterval h p)\<lparr>alarmInterval := None\<rparr>)"
proof -
  have "h < next_handle p"
    using assms(1,3) by (simp add: well_formed_def)
  with assms(2) show ?thesis
    by (simp add: gone_clearInterval)
qed

lemma gone_stopAlarm:
  assumes "well_formed p" and "cleared_are_gone p"
  shows "cleared_are_gone (stopAlarm p)"
  using assms gone_clear_alarm [of p]
  by (auto simp: stopAlarm_def split: option.splits)

lemma gone_alarm_callback:
  assumes "well_formed p" and "cleared_are_gone p"
  shows "cleared_are_gone (alarm_callback p)"
proof (cases "beepCount p \<ge> maxBeeps")
  case True
  show ?thesis
  proof (cases "alarmInterval p")
    case None
    with True assms show ?thesis
      by (simp add: alarm_callback_def)
  next
    case (Some h)
    with True gone_clear_alarm [OF assms Some] show ?thesis
      by (simp add: alarm_callback_def)
  qed
next
  case False
  with assms show ?thesis
    by (simp add: alarm_callback_def Let_def playBeep_def)
qed

lemma gone_fire:
  assumes "well_formed p" and "cleared_are_gone p"
  shows "cleared_are_gone (fire h p)"
proof (cases "find (\<lambda>t. handle t = h) (timers p)")
  case None
  with assms show ?thesis by (simp add: fire_def)
next
  case (Some t)
  show ?thesis
  proof (cases "callback t")
    case (calls fs)
    with Some assms show ?thesis
      by (simp add: fire_def)
  next
    case alarm_tick
    with Some gone_alarm_callback [OF assms] show ?thesis
      by (simp add: fire_def)
  qed
qed

lemma gone_playAlertSound:
  assumes "well_formed p" and "cleared_are_gone p"
  shows "cleared_are_gone (playAlertSound env p)"
proof (cases "audio_supported env")
  case False
  with assms show ?thesis
    by (simp add: playAlertSound_def)
next
  case True
  define p1 where "p1 = (case alarmInterval p of Some h \<Rightarrow> clearInterval h (p\<lparr>beepCount := 0\<rparr>)
                         | None \<Rightarrow> p\<lparr>beepCount := 0\<rparr>)"
  have g1: "cleared_are_gone p1"
  proof (cases "alarmInterval p")
    case None
    with assms(2) show ?thesis by (simp add: p1_def)
  next
    case (Some h)
    have "h < next_handle p"
      using assms(1) Some by (simp add: well_formed_def)
    with assms(2) Some show ?thesis
      by (simp add: p1_def gone_clearInterval)
  qed
  have "cleared_are_gone (snd (setInterval alarm_tick 200 p1))"
    using g1 by (rule gone_setInterval)
  moreover have "cleared (playAlertSound env p) = cleared (snd (setInterval alarm_tick 200 p1))"
    and "timers (playAlertSound env p) = timers (snd (setInterval alarm_tick 200 p1))"
    and "next_handle (playAlertSound env p) = next_handle (snd (setInterval alarm_tick 200 p1))"
    using True
    by (auto simp: playAlertSound_def p1_def Let_def setInterval_def playBeep_def clearInterval_def
          split: option.splits prod.splits)
  ultimately show ?thesis
    by (simp add: cleared_are_gone_def)
qed

lemma gone_DOMContentLoaded:
  "cleared_are_gone p \<Longrightarrow> cleared_are_gone (DOMContentLoaded sc p)"
  by (cases sc) (simp_all add: Let_def startTimer_def gone_setInterval)

lemma gone_step:
  assumes "well_formed p" and "cleared_are_gone p"
  shows "cleared_are_gone (step e p)"
proof (cases e)
  case (loaded sc)
  with gone_DOMContentLoaded [OF assms(2)] show ?thesis by simp
next
  case (fires h)
  with gone_fire [OF assms] show ?thesis by simp
next
  case (fall_alert env)
  with gone_playAlertSound [OF assms] show ?thesis by simp
next
  case stop_alarm
  with gone_stopAlarm [OF assms] show ?thesis by simp
qed

lemma gone_run:
  "well_formed p \<Longrightarrow> cleared_are_gone p \<Longrightarrow> cleared_are_gone (run es p)"
proof (induction es arbitrary: p)
  case Nil
  then show ?case by (simp add: run_def)
next
  case (Cons e es)
  have 1: "well_formed (step e p)"
    using wf_step [OF Cons.prems(1), of e] by simp
  have 2: "cleared_are_gone (step e p)"
    using Cons.prems by (rule gone_step)
  have "run (e # es) p = run es (step e p)" by (simp add: run_def)
  with Cons.IH [OF 1 2] show ?case by simp
qed

lemma gone_page0: "cleared_are_gone page0"
  by (simp add: cleared_are_gone_def page0_def)

lemma eight_firings:
  "run [fall_alert env_ok, fires 1, fires 1, fires 1, fires 1, fires 1, fires 1, fires 1, fires 1]
       page0
   = \<lparr>timers = [\<lparr>handle = 1, callback = alarm_tick, delay = 200\<rparr>], next_handle = 2,
      cleared = [], called = [''Notification.requestPermission''], alarmInterval = Some 1,
      beepCount = 9,
      beeps = [(880, 150), (660, 150), (880, 150), (660, 150), (880, 150), (660, 150),
               (880, 150), (660, 150), (880, 150)],
      console_log = []\<rparr>"
  by (simp add: run_def playAlertSound_def env_ok_def page0_def Let_def setInterval_def
        playBeep_def fire_def alarm_callback_def maxBeeps_def clearInterval_def freq_def)

text \<open>
  Claim C4, as stated: no \<open>clearInterval\<close> is ever applied to a handle \<open>setInterval\<close>
  returned. It fails on the alarm: after a fall alert the interval of \<open>playAlertSound\<close> has
  the handle 1, and its ninth firing clears it.
\<close>

theorem alarm_interval_is_cleared:
  "timers (run [fall_alert env_ok] page0) = [\<lparr>handle = 1, callback = alarm_tick, delay = 200\<rparr>]
   \<and> cleared (run [fall_alert env_ok, fires 1, fires 1, fires 1, fires 1, fires 1, fires 1,
                    fires 1, fires 1, fires 1] page0) = [1]
   \<and> timers (run [fall_alert env_ok, fires 1, fires 1, fires 1, fires 1, fires 1, fires 1,
                    fires 1, fires 1, fires 1] page0) = []"
  by (simp add: run_def playAlertSound_def env_ok_def page0_def Let_def setInterval_def
        playBeep_def fire_def alarm_callback_def maxBeeps_def clearInterval_def)

text \<open>
  Claim C4, amended: the timers the scripts register for polling and for the clocks (every
  timer but the alarm's) are never cleared: whatever events the page has seen (script
  loads, timer firings, fall alerts, \<open>stopAlarm\<close>), each such timer stays registered under
  every further sequence of events, and its handle is never given to \<open>clearInterval\<close>. The
  alarm's interval is the one timer that is cleared, at three places, each of which gives
  the handle in \<open>alarmInterval\<close> to \<open>clearInterval\<close>, which removes the timers of that
  handle: \<open>stopAlarm\<close>; the next \<open>playAlertSound\<close> (in a browser with an audio context),
  before it registers its own interval; and the alarm's callback once the beep count has
  reached \<open>maxBeeps\<close>. With no handle in \<open>alarmInterval\<close>, \<open>stopAlarm\<close> does nothing and the
  other two clear nothing; below \<open>maxBeeps\<close> the callback clears nothing.
\<close>

theorem polling_timers_never_cleared:
  "prefix (polling_timers (run es1 page0)) (polling_timers (run (es1 @ es2) page0))
   \<and> (t \<in> set (timers (run es1 page0)) \<and> callback t \<noteq> alarm_tick
        \<longrightarrow> t \<in> set (timers (run (es1 @ es2) page0))
            \<and> handle t \<notin> set (cleared (run (es1 @ es2) page0)))
   \<and> (alarmInterval p = Some h
        \<longrightarrow> cleared (stopAlarm p) = cleared p @ [h]
            \<and> timers (stopAlarm p) = filter (\<lambda>t. handle t \<noteq> h) (timers p)
            \<and> alarmInterval (stopAlarm p) = None)
   \<and> (alarmInterval p = Some h \<and> audio_supported env
        \<longrightarrow> cleared (playAlertSound env p) = cleared p @ [h]
            \<and> timers (playAlertSound env p)
                = filter (\<lambda>t. handle t \<noteq> h) (timers p)
                  @ [\<lparr>handle = next_handle p, callback = alarm_tick, delay = 200\<rparr>]
            \<and> alarmInterval (playAlertSound env p) = Some (next_handle p))
   \<and> (alarmInterval p = Some h \<and> maxBeeps \<le> beepCount p
        \<longrightarrow> cleared (alarm_callback p) = cleared p @ [h]
            \<and> timers (alarm_callback p) = filter (\<lambda>t. handle t \<noteq> h) (timers p)
            \<and> alarmInterval (alarm_callback p) = None)
   \<and> (alarmInterval p = None
        \<longrightarrow> stopAlarm p = p
            \<and> cleared (playAlertSound env p) = cleared p
            \<and> cleared (alarm_callback p) = cleared p)
   \<and> (beepCount p < maxBeeps
        \<longrightarrow> cleared (alarm_callback p) = cleared p \<and> timers (alarm_callback p) = timers p)"
proof -
  have wf1: "well_formed (run es1 page0)"
    using wf_run [OF wf_page0] by simp
  have r: "run (es1 @ es2) page0 = run es2 (run es1 page0)"
    by (simp add: run_def)
  have pre: "prefix (polling_timers (run es1 page0)) (polling_timers (run (es1 @ es2) page0))"
    unfolding r using wf_run [OF wf1] by simp
  then have "set (polling_timers (run es1 page0)) \<subseteq> set (polling_timers (run (es1 @ es2) page0))"
    by (rule set_mono_prefix)
  then have stays: "t \<in> set (timers (run es1 page0)) \<and> callback t \<noteq> alarm_tick
        \<longrightarrow> t \<in> set (timers (run (es1 @ es2) page0))"
    by (auto simp: polling_timers_def)
  have "cleared_are_gone (run (es1 @ es2) page0)"
    using gone_run [OF wf_page0 gone_page0] .
  then have gone: "t \<in> set (timers (run (es1 @ es2) page0))
        \<longrightarrow> handle t \<notin> set (cleared (run (es1 @ es2) page0))"
    by (auto simp: cleared_are_gone_def list_all_iff)
  have stop: "alarmInterval p = Some h
        \<longrightarrow> cleared (stopAlarm p) = cleared p @ [h]
            \<and> timers (stopAlarm p) = filter (\<lambda>t. handle t \<noteq> h) (timers p)
            \<and> alarmInterval (stopAlarm p) = None"
    by (simp add: stopAlarm_def clearInterval_def)
  have again: "alarmInterval p = Some h \<and> audio_supported env
        \<longrightarrow> cleared (playAlertSound env p) = cleared p @ [h]
            \<and> timers (playAlertSound env p)
                = filter (\<lambda>t. handle t \<noteq> h) (timers p)
                  @ [\<lparr>handle = next_handle p, callback = alarm_tick, delay = 200\<rparr>]
            \<and> alarmInterval (playAlertSound env p) = Some (next_handle p)"
    by (simp add: playAlertSound_def Let_def setInterval_def playBeep_def clearInterval_def
          split: option.splits)
  have last: "alarmInterval p = Some h \<and> maxBeeps \<le> beepCount p
        \<longrightarrow> cleared (alarm_callback p) = cleared p @ [h]
            \<and> timers (alarm_callback p) = filter (\<lambda>t. handle t \<noteq> h) (timers p)
            \<and> alarmInterval (alarm_callback p) = None"
    by (simp add: alarm_callback_def clearInterval_def)
  have none: "alarmInterval p = None
        \<longrightarrow> stopAlarm p = p
            \<and> cleared (playAlertSound env p) = cleared p
            \<and> cleared (alarm_callback p) = cleared p"
    by (simp add: stopAlarm_def alarm_callback_def playAlertSound_def Let_def setInterval_def
          playBeep_def split: option.splits)
  have below: "beepCount p < maxBeeps
        \<longrightarrow> cleared (alarm_callback p) = cleared p \<and> timers (alarm_callback p) = timers p"
    by (simp add: alarm_callback_def Let_def playBeep_def)
  from pre stays gone stop again last none below show ?thesis
    by blast
qed

theorem polling_timers_never_cleared_witness:
  "\<lparr>handle = 3, callback = calls [''loadBattery''], delay = 60000\<rparr>
     \<in> set (timers (run ([loaded caregiver_ui_js]
          @ [fall_alert env_ok, fires 5, fires 5, fires 5, fires 5, fires 5, fires 5,
             fires 5, fires 5, fires 5, stop_alarm]) page0))
   \<and> 3 \<notin> set (cleared (run ([loaded caregiver_ui_js]
          @ [fall_alert env_ok, fires 5, fires 5, fires 5, fires 5, fires 5, fires 5,
             fires 5, fires 5, fires 5, stop_alarm]) page0))
   \<and> cleared (stopAlarm (run [fall_alert env_ok, fires 1, fires 1, fires 1, fires 1, fires 1,
        fires 1, fires 1, fires 1] page0)) = [1]
   \<and> timers (stopAlarm (run [fall_alert env_ok, fires 1, fires 1, fires 1, fires 1, fires 1,
        fires 1, fires 1, fires 1] page0)) = []
   \<and> cleared (playAlertSound env_ok (run [fall_alert env_ok, fires 1, fires 1, fires 1, fires 1,
        fires 1, fires 1, fires 1, fires 1] page0)) = [1]
   \<and> timers (playAlertSound env_ok (run [fall_alert env_ok, fires 1, fires 1, fires 1, fires 1,
        fires 1, fires 1, fires 1, fires 1] page0))
       = [\<lparr>handle = 2, callback = alarm_tick, delay = 200\<rparr>]
   \<and> cleared (alarm_callback (run [fall_alert env_ok, fires 1, fires 1, fires 1, fires 1,
        fires 1, fires 1, fires 1, fires 1] page0)) = [1]
   \<and> stopAlarm page0 = page0
   \<and> cleared (alarm_callback (run [fall_alert env_ok] page0)) = []"
proof -
  have t: "\<lparr>handle = 3, callback = calls [''loadBattery''], delay = 60000\<rparr>
      \<in> set (timers (run [loaded caregiver_ui_js] page0))"
    by (simp add: run_def page0_def Let_def setInterval_def)
  have none: "alarmInterval page0 = None"
    by (simp add: page0_def)
  have one: "beepCount (run [fall_alert env_ok] page0) < maxBeeps"
    "cleared (run [fall_alert env_ok] page0) = []"
    by (simp_all add: run_def playAlertSound_def env_ok_def page0_def Let_def setInterval_def
          playBeep_def maxBeeps_def)
  have au: "audio_supported env_ok"
    by (simp add: env_ok_def)
  show ?thesis
    using polling_timers_never_cleared [of "[loaded caregiver_ui_js]"
      "[fall_alert env_ok, fires 5, fires 5, fires 5, fires 5, fires 5, fires 5,
             fires 5, fires 5, fires 5, stop_alarm]"
      "\<lparr>handle = 3, callback = calls [''loadBattery''], delay = 60000\<rparr>"
      "run [fall_alert env_ok, fires 1, fires 1, fires 1, fires 1, fires 1, fires 1, fires 1,
            fires 1] page0" 1 env_ok]
      polling_timers_never_cleared [of "[loaded caregiver_ui_js]" "[]"
        "\<lparr>handle = 3, callback = calls [''loadBattery''], delay = 60000\<rparr>" page0 1 env_ok]
      polling_timers_never_cleared [of "[loaded caregiver_ui_js]" "[]"
        "\<lparr>handle = 3, callback = calls [''loadBattery''], delay = 60000\<rparr>"
        "run [fall_alert env_ok] page0" 1 env_ok]
      t none one au
    unfolding eight_firings
    by (simp add: maxBeeps_def)
qed

text \<open>
  Claim C3, as stated: a single invocation of \<open>playAlertSound\<close> schedules exactly 9 beeps.
  It fails in a browser where no audio context can be constructed: the constructor throws
  at the first statement of the \<open>try\<close> block, the \<open>catch\<close> logs, and no beep is played and
  no interval registered, whatever fires afterwards.
\<close>

theorem no_beep_without_audio_context:
  "playAlertSound env_no_audio page0 = page0\<lparr>console_log := [''Audio not supported:'']\<rparr>
   \<and> beeps (playAlertSound env_no_audio page0) = []
   \<and> timers (playAlertSound env_no_audio page0) = []
   \<and> alarmInterval (playAlertSound env_no_audio page0) = None
   \<and> beeps (run [fall_alert env_no_audio, fires 1, fires 1, fires 1, fires 1, fires 1, fires 1,
                  fires 1, fires 1, fires 1] page0) = []"
  by (simp add: run_def playAlertSound_def env_no_audio_def page0_def fire_def)

lemma alarm_with_audio_context:
  assumes "well_formed p" and "audio_supported env"
  shows "alarmInterval (playAlertSound env p) = Some (next_handle p)
    \<and> (n \<le> 8 \<longrightarrow>
         beeps (ticks n (next_handle p) (playAlertSound env p))
           = beeps p @ map (\<lambda>k. (if even k then 880 else 660, 150)) [0..<Suc n]
         \<and> alarmInterval (ticks n (next_handle p) (playAlertSound env p)) = Some (next_handle p))
    \<and> beeps (ticks (9 + m) (next_handle p) (playAlertSound env p))
         = beeps p @ map (\<lambda>k. (if even k then 880 else 660, 150)) [0..<9]
    \<and> alarmInterval (ticks (9 + m) (next_handle p) (playAlertSound env p)) = None
    \<and> find (\<lambda>t. handle t = next_handle p)
         (timers (ticks (9 + m) (next_handle p) (playAlertSound env p))) = None
    \<and> next_handle p \<in> set (cleared (ticks (9 + m) (next_handle p) (playAlertSound env p)))"
proof -
  let ?h = "next_handle p" and ?p1 = "playAlertSound env p"
  let ?t = "\<lparr>handle = next_handle p, callback = alarm_tick, delay = 200\<rparr>"
  note st = playAlertSound_state [OF assms]
  have fnd: "find (\<lambda>t. handle t = ?h) (timers ?p1) = Some ?t" by (rule st(4))
  have cb: "callback ?t = alarm_tick" by simp
  have run: "ticks k ?h ?p1 =
      ?p1\<lparr>beeps := beeps ?p1 @ map (\<lambda>k. (freq k, 150)) [beepCount ?p1 ..< beepCount ?p1 + k],
           beepCount := beepCount ?p1 + k\<rparr>" if "k \<le> 8" for k
    using that by (intro ticks_beeps [OF fnd cb]) (simp add: st(2))
  have zero: "[0..<Suc k] = 0 # [1..<Suc k]" for k
    by (subst upt_rec) simp
  have fr: "(\<lambda>k. (freq k, 150)) = (\<lambda>k. (if even k then 880 else 660, 150::nat))"
    by (simp add: freq_def fun_eq_iff even_iff_mod_2_eq_zero)
  have beeps_k: "beeps (ticks k ?h ?p1)
      = beeps p @ map (\<lambda>k. (if even k then 880 else 660, 150)) [0..<Suc k]" if "k \<le> 8" for k
    using run [OF that] by (simp add: st zero fr del: upt_Suc)
  have alarm_k: "alarmInterval (ticks k ?h ?p1) = Some ?h" if "k \<le> 8" for k
    using run [OF that] by (simp add: st)
  let ?q8 = "ticks 8 ?h ?p1"
  have q8: "find (\<lambda>t. handle t = ?h) (timers ?q8) = Some ?t" "beepCount ?q8 = 9"
    "alarmInterval ?q8 = Some ?h"
    using run [of 8] by (simp_all add: st)
  let ?q9 = "?q8\<lparr>timers := filter (\<lambda>t. handle t \<noteq> ?h) (timers ?q8), cleared := cleared ?q8 @ [?h],
                   alarmInterval := None\<rparr>"
  have f9: "fire ?h ?q8 = ?q9"
    by (rule fire_stop [OF q8(1) cb q8(2) q8(3)])
  have gone: "find (\<lambda>t. handle t = ?h) (timers ?q9) = None"
    by (simp add: find_filter_out)
  have "ticks (9 + m) ?h ?p1 = ticks (Suc m) ?h ?q8"
    using ticks_add [of 8 "Suc m" ?h ?p1] by simp
  also have "\<dots> = ticks m ?h ?q9" by (simp add: f9)
  also have "\<dots> = ?q9" by (rule ticks_unregistered [OF gone])
  finally have stop: "ticks (9 + m) ?h ?p1 = ?q9" .
  have b9: "beeps ?q9 = beeps p @ map (\<lambda>k. (if even k then 880 else 660, 150)) [0..<9]"
    using beeps_k [of 8] by simp
  show ?thesis
    unfolding stop using st(1) beeps_k [of n] alarm_k [of n] b9 gone by simp
qed

lemma alarm_without_audio_context:
  assumes "well_formed p" and "\<not> audio_supported env"
  shows "playAlertSound env p = p\<lparr>console_log := console_log p @ [''Audio not supported:'']\<rparr>"
    and "ticks n (next_handle p) (playAlertSound env p) = playAlertSound env p"
proof -
  show 1: "playAlertSound env p = p\<lparr>console_log := console_log p @ [''Audio not supported:'']\<rparr>"
    using assms(2) by (simp add: playAlertSound_def)
  have "list_all (\<lambda>t. handle t < next_handle p) (timers p)"
    using assms(1) by (simp add: well_formed_def)
  then have "find (\<lambda>t. handle t = next_handle p) (timers p) = None"
    by (induction "timers p") (auto simp: find_None_iff list_all_iff)
  then show "ticks n (next_handle p) (playAlertSound env p) = playAlertSound env p"
    unfolding 1 by (intro ticks_unregistered) simp
qed

text \<open>
  Claim C3, amended: on a well-formed page (every page the events lead to is one,
  \<open>wf_run\<close>), in a browser that can construct the audio context, one invocation of
  \<open>playAlertSound\<close> plays exactly 9 beeps: the first at once and one at each of the next 8
  firings of its interval; beep number \<open>k\<close> (from 0) has 880 Hz when \<open>k\<close> is even and 660 Hz
  when \<open>k\<close> is odd. At the ninth firing the count has reached 9 and the callback clears its
  own interval: from then on the timer is not registered and no further beep is played.
  In a browser that cannot construct the audio context the invocation only logs: it plays
  no beep and registers no interval, and firing the handle it would have got changes
  nothing.
\<close>

theorem alarm_nine_alternating_beeps:
  assumes "well_formed p"
  shows "(audio_supported env \<longrightarrow>
      alarmInterval (playAlertSound env p) = Some (next_handle p)
      \<and> (n \<le> 8 \<longrightarrow>
           beeps (ticks n (next_handle p) (playAlertSound env p))
             = beeps p @ map (\<lambda>k. (if even k then 880 else 660, 150)) [0..<Suc n]
           \<and> alarmInterval (ticks n (next_handle p) (playAlertSound env p)) = Some (next_handle p))
      \<and> beeps (ticks (9 + m) (next_handle p) (playAlertSound env p))
           = beeps p @ map (\<lambda>k. (if even k then 880 else 660, 150)) [0..<9]
      \<and> alarmInterval (ticks (9 + m) (next_handle p) (playAlertSound env p)) = None
      \<and> find (\<lambda>t. handle t = next_handle p)
           (timers (ticks (9 + m) (next_handle p) (playAlertSound env p))) = None
      \<and> next_handle p \<in> set (cleared (ticks (9 + m) (next_handle p) (playAlertSound env p))))
    \<and> (\<not> audio_supported env \<longrightarrow>
      playAlertSound env p = p\<lparr>console_log := console_log p @ [''Audio not supported:'']\<rparr>
      \<and> ticks n (next_handle p) (playAlertSound env p) = playAlertSound env p
      \<and> beeps (ticks n (next_handle p) (playAlertSound env p)) = beeps p
      \<and> timers (ticks n (next_handle p) (playAlertSound env p)) = timers p
      \<and> alarmInterval (ticks n (next_handle p) (playAlertSound env p)) = alarmInterval p)"
proof (cases "audio_supported env")
  case True
  with alarm_with_audio_context [OF assms True, of n m] show ?thesis
    by simp
next
  case False
  have 1: "playAlertSound env p = p\<lparr>console_log := console_log p @ [''Audio not supported:'']\<rparr>"
    and 2: "ticks n (next_handle p) (playAlertSound env p) = playAlertSound env p"
    using alarm_without_audio_context [OF assms False] by simp_all
  have "beeps (ticks n (next_handle p) (playAlertSound env p)) = beeps p"
    "timers (ticks n (next_handle p) (playAlertSound env p)) = timers p"
    "alarmInterval (ticks n (next_handle p) (playAlertSound env p)) = alarmInterval p"
    unfolding 2 by (simp_all add: 1)
  with False 1 2 show ?thesis
    by simp
qed

theorem alarm_nine_alternating_beeps_witness:
  "beeps (ticks 9 1 (playAlertSound env_ok page0))
     = [(880, 150), (660, 150), (880, 150), (660, 150), (880, 150), (660, 150), (880, 150),
        (660, 150), (880, 150)]
   \<and> alarmInterval (ticks 9 1 (playAlertSound env_ok page0)) = None
   \<and> alarmInterval (ticks 8 1 (playAlertSound env_ok page0)) = Some 1
   \<and> beeps (ticks 8 1 (playAlertSound env_no_audio page0)) = []
   \<and> timers (ticks 8 1 (playAlertSound env_no_audio page0)) = []"
proof -
  have nh: "next_handle page0 = 1" and b0: "beeps page0 = []" and t0: "timers page0 = []"
    by (simp_all add: page0_def)
  have au: "audio_supported env_ok" "\<not> audio_supported env_no_audio"
    by (simp_all add: env_ok_def env_no_audio_def)
  have l: "map (\<lambda>k. (if even k then 880 else 660, 150::nat)) [0..<9]
      = [(880::nat, 150), (660, 150), (880, 150), (660, 150), (880, 150), (660, 150), (880, 150),
        (660, 150), (880, 150)]"
    by (simp add: upt_rec)
  have with_audio: "beeps (ticks 9 1 (playAlertSound env_ok page0))
     = [(880, 150), (660, 150), (880, 150), (660, 150), (880, 150), (660, 150), (880, 150),
        (660, 150), (880, 150)]
   \<and> alarmInterval (ticks 9 1 (playAlertSound env_ok page0)) = None
   \<and> alarmInterval (ticks 8 1 (playAlertSound env_ok page0)) = Some 1"
    using alarm_nine_alternating_beeps [OF wf_page0, of env_ok 8 0] l au(1)
    by (simp add: nh b0 del: upt_Suc)
  have without: "beeps (ticks 8 1 (playAlertSound env_no_audio page0)) = []
   \<and> timers (ticks 8 1 (playAlertSound env_no_audio page0)) = []"
    using alarm_nine_alternating_beeps [OF wf_page0, of env_no_audio 8 0] au(2)
    unfolding nh b0 t0 by blast
  from with_audio without show ?thesis
    by blast
qed

end
